theory Spec2Isabelle
  imports Main
begin

section \<open>Exceptions\<close>

text \<open>
  The client library raises two exception classes of its own, \<open>InterfaceNotFound\<close> and
  \<open>InterfaceMissingKey\<close> (both direct subclasses of \<open>Exception\<close>, each carrying a
  message), a bare \<open>Exception\<close> in \<open>login\<close>, and lets the exceptions of its
  collaborators through: \<open>TypeError\<close> from a dataclass constructor or a failed iteration,
  \<open>AttributeError\<close> from a method that a value does not have, httpx's
  \<open>HTTPStatusError\<close> (with the status code), httpx's transport failures (timeout,
  connection error), a JSON decoding failure, and grpc's \<open>RpcError\<close> with its status
  code. A raise is a value \<open>Inl e\<close> of \<open>error + 'a\<close>; a normal return is \<open>Inr v\<close>.

  The dataclass constructors store whatever value they are given. The records of the
  domain model below carry the types of the annotations, so a value outside its
  annotation (a number where \<open>str\<close> is annotated, say) has no image in such a record:
  there the parser's model stops with \<open>Inl (IllTyped key)\<close>, which is a marker of the
  model and not an exception of the program. Every statement about the parsers is made
  on values inside the annotations.
\<close>

datatype StatusCode = UNAUTHENTICATED | DEADLINE_EXCEEDED | UNAVAILABLE | NOT_FOUND
  | OTHER_STATUS nat

datatype error =
    InterfaceNotFound string
  | InterfaceMissingKey string
  | Exception string
  | TypeError
  | AttributeError
  | HTTPStatusError nat
  | TransportError string
  | JSONDecodeError
  | RpcError StatusCode
  | OtherError string
  | IllTyped string

text \<open>Sequencing: the first raise ends the computation.\<close>

fun bind_err :: "error + 'a \<Rightarrow> ('a \<Rightarrow> error + 'b) \<Rightarrow> error + 'b" where
  "bind_err (Inl e) f = Inl e"
| "bind_err (Inr v) f = f v"

text \<open>
  What an \<open>except\<close> clause can branch on is the class of the raised exception, not its
  message. \<open>InterfaceNotFound\<close> and \<open>InterfaceMissingKey\<close> are siblings: neither clause
  catches the other's exceptions.
\<close>

datatype exception_class =
    InterfaceNotFound_class
  | InterfaceMissingKey_class
  | Exception_class
  | TypeError_class
  | AttributeError_class
  | HTTPStatusError_class
  | TransportError_class
  | JSONDecodeError_class
  | RpcError_class
  | OtherError_class

fun class_of :: "error \<Rightarrow> exception_class" where
  "class_of (InterfaceNotFound m) = InterfaceNotFound_class"
| "class_of (InterfaceMissingKey m) = InterfaceMissingKey_class"
| "class_of (Exception m) = Exception_class"
| "class_of TypeError = TypeError_class"
| "class_of AttributeError = AttributeError_class"
| "class_of (HTTPStatusError c) = HTTPStatusError_class"
| "class_of (TransportError m) = TransportError_class"
| "class_of JSONDecodeError = JSONDecodeError_class"
| "class_of (RpcError c) = RpcError_class"
| "class_of (OtherError m) = OtherError_class"
| "class_of (IllTyped k) = OtherError_class"

fun raised_class :: "error + 'a \<Rightarrow> exception_class option" where
  "raised_class (Inl e) = Some (class_of e)"
| "raised_class (Inr v) = None"

section \<open>Wire data and session state\<close>

subsection \<open>JSON\<close>

text \<open>
  What \<open>response.json()\<close> returns: \<open>None\<close>, booleans, integers, strings, lists and
  dictionaries with string keys, in the order of the document. JSON numbers with a
  fraction are left out of the model.
\<close>

datatype json = JNull | JBool bool | JInt int | JStr string | JList "json list"
  | JObject "(string \<times> json) list"

subsection \<open>The httpx session\<close>

text \<open>
  The two ways the REST client uses its session: \<open>session.request(method, url,
  headers=..., timeout=..., **kwargs)\<close> in \<open>_request\<close>, and \<open>session.post(url, json=...,
  timeout=...)\<close> in \<open>login\<close>.
\<close>

text \<open>
  A header value is a literal text, or the f-string \<open>f"Bearer {self.token}"\<close>, which is
  kept as the token it is formatted from: for a string token \<open>t\<close> the header text is
  \<open>Bearer\<close>, a space and \<open>t\<close>; what \<open>str\<close> writes for the other values a token can
  be is not spelled out.
\<close>

datatype header_value = Literal string | Bearer json

datatype http_call =
    SessionRequest string string "(string \<times> header_value) list" int "(string \<times> json) list"
  | SessionPost string json int

text \<open>
  A response has a status code and a body; \<open>body = None\<close> is a body that is not JSON,
  on which \<open>response.json()\<close> raises.
\<close>

record Response =
  status_code :: nat
  body :: "json option"

text \<open>
  The remote service and the network are the environment: what a call returns (a
  response, or a raised transport failure such as a timeout) may depend on everything the
  session has sent before.
\<close>

type_synonym Transport = "http_call list \<Rightarrow> http_call \<Rightarrow> error + Response"

text \<open>
  \<open>WyronClient\<close>. The field \<open>session\<close> is the httpx session, kept as the list of the
  calls made through it, oldest first. The field \<open>token\<close> is annotated \<open>Optional[str]\<close>,
  but \<open>login\<close> stores whatever the login response holds under \<open>token\<close>, so the field
  is a decoded JSON value: \<open>JNull\<close> is \<open>None\<close>, \<open>JStr t\<close> is the string \<open>t\<close>.
\<close>

record WyronClient =
  base_url :: string
  username :: string
  password :: string
  token :: json
  timeout :: int
  session :: "http_call list"

subsection \<open>The gRPC channel\<close>

text \<open>
  Modelled from the spec: the protobuf messages and stubs of \<open>wyron_proto\<close> are not among
  the sources. A message is a record of the fields the client reads or sets. Reading a
  scalar field of a protobuf message gives a value of the field's type, never \<open>None\<close>:
  a string field that was not set reads as the empty string, an integer field as 0.
\<close>

record InterfaceMessage =
  name :: string
  display_name :: string
  subnet :: string
  endpoint :: string
  dns :: string
  port :: int
  created_at :: int
  public_key :: string

record ServerMessage =
  id' :: string
  address :: string
  username :: string
  display_name :: string
  created_at :: int
  interfaces :: "InterfaceMessage list"

text \<open>
  \<open>ListUsersRequest\<close>: the constructor sets \<open>limit\<close>, \<open>skip\<close>, \<open>sort\<close> and \<open>order\<close>; an
  optional field is \<open>None\<close> here until the client assigns it.
\<close>

record ListUsersRequest =
  limit :: int
  skip :: int
  sort :: string
  order :: string
  social_id :: "int option"
  status :: "string option"
  search :: "string option"

text \<open>
  The calls made through the channel: \<open>auth.Login(LoginRequest(username, password),
  timeout)\<close>, and \<open>func(request, metadata, timeout)\<close> for a stub method \<open>func\<close> (named by
  a string) on a request of type \<open>'m\<close>.
\<close>

datatype 'm rpc_call =
    LoginCall string string int
  | StubCall string 'm "(string \<times> string) list" int

text \<open>
  The environment of the gRPC client: \<open>Login\<close> answers a \<open>LoginResponse\<close>, of which the
  client reads the field \<open>token\<close>; any other stub method answers a message. Either may
  raise.
\<close>

record 'm Channel =
  Login :: "'m rpc_call list \<Rightarrow> string \<Rightarrow> string \<Rightarrow> int \<Rightarrow> error + string"
  invoke :: "'m rpc_call list \<Rightarrow> string \<Rightarrow> 'm \<Rightarrow> (string \<times> string) list \<Rightarrow> int \<Rightarrow> error + 'm"

text \<open>\<open>WyronGrpcClient\<close>; \<open>calls\<close> lists what went through its channel, oldest first.\<close>

record 'm WyronGrpcClient =
  host :: string
  username :: string
  password :: string
  timeout :: int
  token :: "string option"
  calls :: "'m rpc_call list"

section \<open>Models\<close>

text \<open>
  The dataclasses, with the types of their annotations: \<open>Optional[str]\<close> is
  \<open>string option\<close>, \<open>Optional[int]\<close> is \<open>int option\<close> (Python's integers are unbounded).
\<close>

record WireGuardInterface =
  name :: string
  display_name :: "string option"
  subnet :: "string option"
  endpoint :: "string option"
  dns :: "string option"
  port :: "int option"
  created_at :: "int option"
  public_key :: "string option"

record Server =
  name :: string
  address :: string
  username :: string
  display_name :: "string option"
  created_at :: "int option"
  interfaces :: "WireGuardInterface list"

text \<open>
  \<open>ServerResolver\<close> is a protocol with the one method \<open>get_server(server_id)\<close>, which
  returns a \<open>Server\<close> or raises. Any object with that method is a resolver, and like any
  Python object it has a truth value: \<open>truthy\<close> is what \<open>bool(resolver)\<close> answers,
  false only for an object whose class defines \<open>__bool__\<close> or \<open>__len__\<close> to say so
  (\<open>WyronClient\<close> and \<open>WyronGrpcClient\<close> define neither, so they are true).
  \<open>PeerState._client\<close> is \<open>None\<close> until \<open>bind_client\<close> stores a resolver.
\<close>

record ServerResolver =
  truthy :: bool
  get_server :: "string \<Rightarrow> error + Server"

record PeerState =
  server_id :: string
  interface :: string
  allowed_address :: string
  private_key :: "string option"
  client :: "ServerResolver option"

definition bind_client :: "PeerState \<Rightarrow> ServerResolver \<Rightarrow> PeerState" where
  "bind_client self c = self\<lparr>client := Some c\<rparr>"

subsection \<open>Python's truth value and \<open>str\<close> on the field types\<close>

text \<open>
  \<open>not x\<close> on an \<open>Optional[str]\<close>: true for \<open>None\<close> and for the empty string.
\<close>

definition falsy :: "string option \<Rightarrow> bool" where
  "falsy x = (case x of None \<Rightarrow> True | Some s \<Rightarrow> s = [])"

definition digit_char :: "nat \<Rightarrow> char" where
  "digit_char d =
     (if d = 0 then CHR ''0'' else if d = 1 then CHR ''1'' else if d = 2 then CHR ''2''
      else if d = 3 then CHR ''3'' else if d = 4 then CHR ''4'' else if d = 5 then CHR ''5''
      else if d = 6 then CHR ''6'' else if d = 7 then CHR ''7'' else if d = 8 then CHR ''8''
      else CHR ''9'')"

fun digits :: "nat \<Rightarrow> string" where
  "digits n = (if n < 10 then [digit_char n] else digits (n div 10) @ [digit_char (n mod 10)])"

text \<open>\<open>str\<close> of an integer: decimal, with a minus sign when negative.\<close>

definition str_int :: "int \<Rightarrow> string" where
  "str_int i = (if i < 0 then CHR ''-'' # digits (nat (- i)) else digits (nat i))"

text \<open>
  What an f-string writes for a field: \<open>None\<close> is written as the four letters
  \<open>None\<close>, a string as itself, an integer in decimal.
\<close>

definition fmt_str :: "string option \<Rightarrow> string" where
  "fmt_str x = (case x of None \<Rightarrow> ''None'' | Some s \<Rightarrow> s)"

definition fmt_int :: "int option \<Rightarrow> string" where
  "fmt_int x = (case x of None \<Rightarrow> ''None'' | Some i \<Rightarrow> str_int i)"

subsection \<open>Resolution of a peer's interface\<close>

text \<open>
  \<open>if not self._client\<close> tests the truth value of the field: it holds when no resolver is
  bound, and also when the bound resolver is an object that is false.
\<close>

definition resolve_server :: "PeerState \<Rightarrow> error + Server" where
  "resolve_server self =
     (case client self of
        None \<Rightarrow> Inl (InterfaceNotFound ''Peer has no client bound'')
      | Some c \<Rightarrow>
          if \<not> truthy c then Inl (InterfaceNotFound ''Peer has no client bound'')
          else get_server c (server_id self))"

definition not_found_message :: "PeerState \<Rightarrow> string" where
  "not_found_message self =
     ''Interface '' @ [CHR 0x27] @ interface self @ [CHR 0x27] @
     '' not found on server '' @ [CHR 0x27] @ server_id self @ [CHR 0x27]"

text \<open>
  \<open>next((i for i in server.interfaces if i.name == self.interface), None)\<close> is the first
  interface of the list with that name. A dataclass instance is always true, so
  \<open>not iface\<close> holds only for \<open>None\<close>.
\<close>

definition resolve_iface :: "PeerState \<Rightarrow> error + WireGuardInterface" where
  "resolve_iface self =
     (case resolve_server self of
        Inl e \<Rightarrow> Inl e
      | Inr server \<Rightarrow>
          (case find (\<lambda>i. WireGuardInterface.name i = interface self) (interfaces server) of
             None \<Rightarrow> Inl (InterfaceNotFound (not_found_message self))
           | Some iface \<Rightarrow> Inr iface))"

subsection \<open>The config renderer\<close>

definition nl :: string where
  "nl = [CHR 0x0A]"

text \<open>
  The f-string of \<open>generate_config\<close>, line by line: every line but the two section
  headers is indented by four spaces, and the text ends with a newline and four spaces.
\<close>

definition render :: "PeerState \<Rightarrow> WireGuardInterface \<Rightarrow> string" where
  "render self iface =
     ''[Interface]'' @ nl @
     ''    Address = '' @ allowed_address self @ nl @
     ''    DNS = '' @ fmt_str (dns iface) @ nl @
     ''    PrivateKey = '' @ fmt_str (private_key self) @ nl @
     nl @
     ''[Peer]'' @ nl @
     ''    AllowedIPs = 0.0.0.0/0'' @ nl @
     ''    Endpoint = '' @ fmt_str (endpoint iface) @ '':'' @ fmt_int (port iface) @ nl @
     ''    PublicKey = '' @ fmt_str (public_key iface) @ nl @
     ''    ''"

definition generate_config :: "PeerState \<Rightarrow> error + string" where
  "generate_config self =
     (if falsy (private_key self) then Inl (InterfaceMissingKey ''Peer private_key missing'')
      else
        (case resolve_iface self of
           Inl e \<Rightarrow> Inl e
         | Inr iface \<Rightarrow>
             if falsy (endpoint iface) then Inl (InterfaceMissingKey ''Interface endpoint missing'')
             else if falsy (public_key iface)
               then Inl (InterfaceMissingKey ''Interface public_key missing'')
             else Inr (render self iface)))"

declare digits.simps [simp del]

subsection \<open>A server, an interface and a peer to run the renderer on\<close>

definition example_iface :: WireGuardInterface where
  "example_iface =
     \<lparr>WireGuardInterface.name = ''wg0'', display_name = None, subnet = None,
      endpoint = Some ''vpn.example.com'', dns = Some ''1.1.1.1'', port = Some 51820,
      created_at = None, public_key = Some ''PUB''\<rparr>"

definition example_server :: Server where
  "example_server =
     \<lparr>Server.name = ''srv1'', address = ''192.0.2.1'', username = ''admin'',
      display_name = None, created_at = None, interfaces = [example_iface]\<rparr>"

definition example_resolver :: ServerResolver where
  "example_resolver =
     \<lparr>truthy = True,
      get_server = (\<lambda>sid. if sid = ''srv1'' then Inr example_server
                          else Inl (HTTPStatusError 404))\<rparr>"

text \<open>A resolver that answers any identifier with the given server.\<close>

definition always :: "Server \<Rightarrow> ServerResolver" where
  "always server = \<lparr>truthy = True, get_server = (\<lambda>sid. Inr server)\<rparr>"

definition example_peer :: PeerState where
  "example_peer =
     \<lparr>server_id = ''srv1'', interface = ''wg0'', allowed_address = ''10.0.0.2/32'',
      private_key = Some ''PK'', client = Some example_resolver\<rparr>"

section \<open>Record parsers\<close>

subsection \<open>REST: keyword arguments from JSON\<close>

text \<open>
  A JSON object stands for the Python dictionary it decodes to, so its keys are distinct
  and \<open>map_of\<close> is the lookup. A field annotated \<open>str\<close> takes a JSON string; a field
  annotated \<open>Optional[str]\<close> or \<open>Optional[int]\<close> takes its default \<open>None\<close> when the key
  is absent, \<open>None\<close> for \<open>null\<close>, and a string or an integer.
\<close>

fun as_str :: "string \<Rightarrow> json \<Rightarrow> error + string" where
  "as_str k (JStr s) = Inr s"
| "as_str k v = Inl (IllTyped k)"

fun as_opt_str :: "string \<Rightarrow> json option \<Rightarrow> error + string option" where
  "as_opt_str k None = Inr None"
| "as_opt_str k (Some JNull) = Inr None"
| "as_opt_str k (Some (JStr s)) = Inr (Some s)"
| "as_opt_str k (Some v) = Inl (IllTyped k)"

fun as_opt_int :: "string \<Rightarrow> json option \<Rightarrow> error + int option" where
  "as_opt_int k None = Inr None"
| "as_opt_int k (Some JNull) = Inr None"
| "as_opt_int k (Some (JInt i)) = Inr (Some i)"
| "as_opt_int k (Some v) = Inl (IllTyped k)"

definition interface_fields :: "string list" where
  "interface_fields = [''name'', ''display_name'', ''subnet'', ''endpoint'', ''dns'', ''port'',
     ''created_at'', ''public_key'']"

definition server_fields :: "string list" where
  "server_fields = [''name'', ''address'', ''username'', ''display_name'', ''created_at'',
     ''interfaces'']"

text \<open>
  \<open>WireGuardInterface(**iface)\<close>: \<open>TypeError\<close> when \<open>iface\<close> is not a mapping, when it has
  a key that is not a field, or when the required \<open>name\<close> is missing.
\<close>

fun WireGuardInterface_init :: "json \<Rightarrow> error + WireGuardInterface" where
  "WireGuardInterface_init (JObject kw) =
     (if \<not> list_all (\<lambda>k. k \<in> set interface_fields) (map fst kw) then Inl TypeError
      else case map_of kw ''name'' of
        None \<Rightarrow> Inl TypeError
      | Some n \<Rightarrow>
          bind_err (as_str ''name'' n) (\<lambda>v_name.
          bind_err (as_opt_str ''display_name'' (map_of kw ''display_name'')) (\<lambda>v_display_name.
          bind_err (as_opt_str ''subnet'' (map_of kw ''subnet'')) (\<lambda>v_subnet.
          bind_err (as_opt_str ''endpoint'' (map_of kw ''endpoint'')) (\<lambda>v_endpoint.
          bind_err (as_opt_str ''dns'' (map_of kw ''dns'')) (\<lambda>v_dns.
          bind_err (as_opt_int ''port'' (map_of kw ''port'')) (\<lambda>v_port.
          bind_err (as_opt_int ''created_at'' (map_of kw ''created_at'')) (\<lambda>v_created_at.
          bind_err (as_opt_str ''public_key'' (map_of kw ''public_key'')) (\<lambda>v_public_key.
          Inr \<lparr>WireGuardInterface.name = v_name,
               WireGuardInterface.display_name = v_display_name,
               WireGuardInterface.subnet = v_subnet,
               WireGuardInterface.endpoint = v_endpoint,
               WireGuardInterface.dns = v_dns,
               WireGuardInterface.port = v_port,
               WireGuardInterface.created_at = v_created_at,
               WireGuardInterface.public_key = v_public_key\<rparr>)))))))))"
| "WireGuardInterface_init v = Inl TypeError"

text \<open>
  What \<open>for iface in v\<close> runs over: the elements of a list, the characters of a string,
  the keys of a dictionary; \<open>None\<close>, a boolean and an integer are not iterable.
\<close>

fun iterate :: "json \<Rightarrow> error + json list" where
  "iterate (JList xs) = Inr xs"
| "iterate (JStr s) = Inr (map (\<lambda>c. JStr [c]) s)"
| "iterate (JObject kw) = Inr (map (\<lambda>(k, v). JStr k) kw)"
| "iterate v = Inl TypeError"

text \<open>A list comprehension whose element expression may raise: the first raise ends it.\<close>

fun map_err :: "('a \<Rightarrow> error + 'b) \<Rightarrow> 'a list \<Rightarrow> error + 'b list" where
  "map_err f [] = Inr []"
| "map_err f (x # xs) =
     bind_err (f x) (\<lambda>y. bind_err (map_err f xs) (\<lambda>ys. Inr (y # ys)))"

text \<open>
  \<open>Server(**s2)\<close>, where \<open>s2\<close> is \<open>s\<close> with the key \<open>interfaces\<close> set to the parsed list:
  \<open>TypeError\<close> on a key of \<open>s\<close> that is not a field and on a missing \<open>name\<close>, \<open>address\<close>
  or \<open>username\<close>.
\<close>

definition Server_init :: "(string \<times> json) list \<Rightarrow> WireGuardInterface list \<Rightarrow> error + Server" where
  "Server_init s2 ifaces =
     (if \<not> list_all (\<lambda>k. k \<in> set server_fields) (map fst s2) then Inl TypeError
      else case (map_of s2 ''name'', map_of s2 ''address'', map_of s2 ''username'') of
        (Some n, Some a, Some u) \<Rightarrow>
          bind_err (as_str ''name'' n) (\<lambda>v_name.
          bind_err (as_str ''address'' a) (\<lambda>v_address.
          bind_err (as_str ''username'' u) (\<lambda>v_username.
          bind_err (as_opt_str ''display_name'' (map_of s2 ''display_name'')) (\<lambda>v_display_name.
          bind_err (as_opt_int ''created_at'' (map_of s2 ''created_at'')) (\<lambda>v_created_at.
          Inr \<lparr>Server.name = v_name, Server.address = v_address,
               Server.username = v_username, Server.display_name = v_display_name,
               Server.created_at = v_created_at, Server.interfaces = ifaces\<rparr>)))))
      | _ \<Rightarrow> Inl TypeError)"

text \<open>
  \<open>WyronClient._parse_server\<close>: \<open>s.get("interfaces", [])\<close> is the empty list when the key
  is absent.
\<close>

definition WyronClient_parse_server :: "(string \<times> json) list \<Rightarrow> error + Server" where
  "WyronClient_parse_server s =
     bind_err (iterate (case map_of s ''interfaces'' of None \<Rightarrow> JList [] | Some v \<Rightarrow> v)) (\<lambda>entries.
     bind_err (map_err WireGuardInterface_init entries) (\<lambda>ifaces.
     Server_init s ifaces))"

subsection \<open>gRPC: field copying\<close>

definition copy_interface :: "InterfaceMessage \<Rightarrow> WireGuardInterface" where
  "copy_interface i =
     \<lparr>WireGuardInterface.name = InterfaceMessage.name i,
      WireGuardInterface.display_name = Some (InterfaceMessage.display_name i),
      WireGuardInterface.subnet = Some (InterfaceMessage.subnet i),
      WireGuardInterface.endpoint = Some (InterfaceMessage.endpoint i),
      WireGuardInterface.dns = Some (InterfaceMessage.dns i),
      WireGuardInterface.port = Some (InterfaceMessage.port i),
      WireGuardInterface.created_at = Some (InterfaceMessage.created_at i),
      WireGuardInterface.public_key = Some (InterfaceMessage.public_key i)\<rparr>"

definition WyronGrpcClient_parse_server :: "ServerMessage \<Rightarrow> Server" where
  "WyronGrpcClient_parse_server s =
     \<lparr>Server.name = id' s,
      Server.address = ServerMessage.address s,
      Server.username = ServerMessage.username s,
      Server.display_name = Some (ServerMessage.display_name s),
      Server.created_at = Some (ServerMessage.created_at s),
      Server.interfaces = map copy_interface (ServerMessage.interfaces s)\<rparr>"

subsection \<open>The two representations of one server\<close>

text \<open>
  Modelled from the spec: the remote service, which writes both representations, is not
  among the sources. \<open>json_of_server\<close> is the REST representation that carries every field
  of the gRPC message, under the name the dataclass gives the field (the message's \<open>id\<close>
  under \<open>name\<close>).
\<close>

definition json_of_interface :: "InterfaceMessage \<Rightarrow> json" where
  "json_of_interface i = JObject
     [(''name'', JStr (InterfaceMessage.name i)),
      (''display_name'', JStr (InterfaceMessage.display_name i)),
      (''subnet'', JStr (InterfaceMessage.subnet i)),
      (''endpoint'', JStr (InterfaceMessage.endpoint i)),
      (''dns'', JStr (InterfaceMessage.dns i)),
      (''port'', JInt (InterfaceMessage.port i)),
      (''created_at'', JInt (InterfaceMessage.created_at i)),
      (''public_key'', JStr (InterfaceMessage.public_key i))]"

definition json_of_server :: "ServerMessage \<Rightarrow> (string \<times> json) list" where
  "json_of_server s =
     [(''name'', JStr (id' s)),
      (''address'', JStr (ServerMessage.address s)),
      (''username'', JStr (ServerMessage.username s)),
      (''display_name'', JStr (ServerMessage.display_name s)),
      (''created_at'', JInt (ServerMessage.created_at s)),
      (''interfaces'', JList (map json_of_interface (ServerMessage.interfaces s)))]"

subsection \<open>Representations inside the annotations\<close>

fun is_str :: "json option \<Rightarrow> bool" where
  "is_str (Some (JStr s)) = True"
| "is_str v = False"

fun is_opt_str :: "json option \<Rightarrow> bool" where
  "is_opt_str None = True"
| "is_opt_str (Some JNull) = True"
| "is_opt_str (Some (JStr s)) = True"
| "is_opt_str (Some v) = False"

fun is_opt_int :: "json option \<Rightarrow> bool" where
  "is_opt_int None = True"
| "is_opt_int (Some JNull) = True"
| "is_opt_int (Some (JInt i)) = True"
| "is_opt_int (Some v) = False"

text \<open>
  A JSON value that is the keyword arguments of a \<open>WireGuardInterface\<close>: an object with
  field keys only, a string \<open>name\<close>, and every other field absent, \<open>null\<close> or of its
  annotated type.
\<close>

fun interface_kwargs_ok :: "json \<Rightarrow> bool" where
  "interface_kwargs_ok (JObject kw) =
     (list_all (\<lambda>k. k \<in> set interface_fields) (map fst kw)
      \<and> is_str (map_of kw ''name'')
      \<and> is_opt_str (map_of kw ''display_name'') \<and> is_opt_str (map_of kw ''subnet'')
      \<and> is_opt_str (map_of kw ''endpoint'') \<and> is_opt_str (map_of kw ''dns'')
      \<and> is_opt_int (map_of kw ''port'') \<and> is_opt_int (map_of kw ''created_at'')
      \<and> is_opt_str (map_of kw ''public_key''))"
| "interface_kwargs_ok v = False"

text \<open>
  The same for the fields of a \<open>Server\<close> other than \<open>interfaces\<close>, on which this predicate
  says nothing.
\<close>

definition server_kwargs_ok :: "(string \<times> json) list \<Rightarrow> bool" where
  "server_kwargs_ok s =
     (list_all (\<lambda>k. k \<in> set server_fields) (map fst s)
      \<and> is_str (map_of s ''name'') \<and> is_str (map_of s ''address'')
      \<and> is_str (map_of s ''username'')
      \<and> is_opt_str (map_of s ''display_name'') \<and> is_opt_int (map_of s ''created_at''))"

subsection \<open>Representations to run the parsers on\<close>

definition example_server_json :: "(string \<times> json) list" where
  "example_server_json =
     [(''name'', JStr ''srv1''), (''address'', JStr ''192.0.2.1''), (''username'', JStr ''admin'')]"

definition example_server_message :: ServerMessage where
  "example_server_message =
     \<lparr>id' = ''srv1'', ServerMessage.address = ''192.0.2.1'', ServerMessage.username = ''admin'',
      ServerMessage.display_name = '''', ServerMessage.created_at = 0,
      ServerMessage.interfaces = []\<rparr>"

definition example_interface_message :: InterfaceMessage where
  "example_interface_message =
     \<lparr>InterfaceMessage.name = ''wg0'', InterfaceMessage.display_name = ''office'',
      InterfaceMessage.subnet = ''10.0.0.0/24'', InterfaceMessage.endpoint = ''vpn.example.com'',
      InterfaceMessage.dns = ''1.1.1.1'', InterfaceMessage.port = 51820,
      InterfaceMessage.created_at = 1700000000, InterfaceMessage.public_key = ''PUB''\<rparr>"

definition example_wg0_json :: json where
  "example_wg0_json = JObject [(''name'', JStr ''wg0''), (''port'', JInt 51820)]"

definition example_wg1_json :: json where
  "example_wg1_json = JObject [(''name'', JStr ''wg1''), (''endpoint'', JNull)]"

section \<open>The REST client\<close>

text \<open>
  A call through the session: the environment answers from what was sent so far, and the
  call is appended to the session.
\<close>

definition send :: "Transport \<Rightarrow> WyronClient \<Rightarrow> http_call \<Rightarrow> (error + Response) \<times> WyronClient" where
  "send net self c = (net (session self) c, self\<lparr>session := session self @ [c]\<rparr>)"

text \<open>httpx: \<open>raise_for_status\<close> raises \<open>HTTPStatusError\<close> on every status outside 2xx.\<close>

definition is_success :: "nat \<Rightarrow> bool" where
  "is_success c = (200 \<le> c \<and> c < 300)"

definition raise_for_status :: "Response \<Rightarrow> error + unit" where
  "raise_for_status r =
     (if is_success (status_code r) then Inr () else Inl (HTTPStatusError (status_code r)))"

definition response_json :: "Response \<Rightarrow> error + json" where
  "response_json r = (case body r of None \<Rightarrow> Inl JSONDecodeError | Some j \<Rightarrow> Inr j)"

text \<open>The last two lines of \<open>_request\<close>: \<open>response.raise_for_status()\<close>, then \<open>response.json()\<close>.\<close>

definition finish :: "Response \<Rightarrow> error + json" where
  "finish r = bind_err (raise_for_status r) (\<lambda>u. response_json r)"

text \<open>Python's truth value of a decoded JSON value.\<close>

fun json_falsy :: "json \<Rightarrow> bool" where
  "json_falsy JNull = True"
| "json_falsy (JBool b) = (\<not> b)"
| "json_falsy (JInt i) = (i = 0)"
| "json_falsy (JStr s) = (s = [])"
| "json_falsy (JList xs) = (xs = [])"
| "json_falsy (JObject kw) = (kw = [])"

definition WyronClient_headers :: "WyronClient \<Rightarrow> (string \<times> header_value) list" where
  "WyronClient_headers self =
     (''Content-Type'', Literal ''application/json'') #
     (if json_falsy (WyronClient.token self) then []
      else [(''Authorization'', Bearer (WyronClient.token self))])"

text \<open>\<open>dict.get\<close> with the default \<open>None\<close>; a value that is not a dictionary has no \<open>get\<close>.\<close>

fun dict_get :: "json \<Rightarrow> string \<Rightarrow> error + json" where
  "dict_get (JObject kw) k = Inr (case map_of kw k of None \<Rightarrow> JNull | Some v \<Rightarrow> v)"
| "dict_get v k = Inl AttributeError"

definition login_call :: "WyronClient \<Rightarrow> http_call" where
  "login_call self =
     SessionPost (base_url self @ ''/auth/login'')
       (JObject [(''username'', JStr (WyronClient.username self)),
                 (''password'', JStr (WyronClient.password self))])
       (WyronClient.timeout self)"

definition WyronClient_login :: "Transport \<Rightarrow> WyronClient \<Rightarrow> (error + unit) \<times> WyronClient" where
  "WyronClient_login net self =
     (case send net self (login_call self) of
        (Inl e, self1) \<Rightarrow> (Inl e, self1)
      | (Inr r, self1) \<Rightarrow>
          (case bind_err (raise_for_status r) (\<lambda>u.
                bind_err (response_json r) (\<lambda>j. dict_get j ''token'')) of
             Inl e \<Rightarrow> (Inl e, self1)
           | Inr tok \<Rightarrow>
               if json_falsy tok
               then (Inl (Exception ''Login failed: token missing in response''), self1)
               else (Inr (), self1\<lparr>WyronClient.token := tok\<rparr>)))"

definition request_call ::
    "WyronClient \<Rightarrow> string \<Rightarrow> string \<Rightarrow> (string \<times> json) list \<Rightarrow> http_call" where
  "request_call self method path kwargs =
     SessionRequest method (base_url self @ path) (WyronClient_headers self)
       (WyronClient.timeout self) kwargs"

definition WyronClient_request ::
    "Transport \<Rightarrow> WyronClient \<Rightarrow> string \<Rightarrow> string \<Rightarrow> (string \<times> json) list
     \<Rightarrow> (error + json) \<times> WyronClient" where
  "WyronClient_request net self method path kwargs =
     (case send net self (request_call self method path kwargs) of
        (Inl e, self1) \<Rightarrow> (Inl e, self1)
      | (Inr response, self1) \<Rightarrow>
          if status_code response = 401 then
            (case WyronClient_login net self1 of
               (Inl e, self2) \<Rightarrow> (Inl e, self2)
             | (Inr u, self2) \<Rightarrow>
                 (case send net self2 (request_call self2 method path kwargs) of
                    (Inl e, self3) \<Rightarrow> (Inl e, self3)
                  | (Inr response2, self3) \<Rightarrow> (finish response2, self3)))
          else (finish response, self1))"

text \<open>
  \<open>list_users\<close>, up to the request it sends: the \<open>params\<close> dictionary in insertion order,
  and \<open>data = self._request("GET", "/users", params=params)\<close>.
\<close>

definition WyronClient_list_users_params ::
    "int option \<Rightarrow> string option \<Rightarrow> string option \<Rightarrow> int \<Rightarrow> int \<Rightarrow> string \<Rightarrow> string
     \<Rightarrow> (string \<times> json) list" where
  "WyronClient_list_users_params = (\<lambda>social_id status search limit skip sort order.
     [(''limit'', JInt limit), (''skip'', JInt skip), (''sort'', JStr sort),
      (''order'', JStr order)]
     @ (case social_id of None \<Rightarrow> [] | Some i \<Rightarrow> [(''social_id'', JInt i)])
     @ (case status of None \<Rightarrow> [] | Some s \<Rightarrow> if s = [] then [] else [(''status'', JStr s)])
     @ (case search of None \<Rightarrow> [] | Some s \<Rightarrow> if s = [] then [] else [(''search'', JStr s)]))"

definition WyronClient_list_users_data ::
    "Transport \<Rightarrow> WyronClient \<Rightarrow> int option \<Rightarrow> string option \<Rightarrow> string option \<Rightarrow> int \<Rightarrow> int
     \<Rightarrow> string \<Rightarrow> string \<Rightarrow> (error + json) \<times> WyronClient" where
  "WyronClient_list_users_data net self = (\<lambda>social_id status search limit skip sort order.
     WyronClient_request net self ''GET'' ''/users''
       [(''params'', JObject
           (WyronClient_list_users_params social_id status search limit skip sort order))])"

section \<open>The gRPC client\<close>

definition WyronGrpcClient_metadata :: "'m WyronGrpcClient \<Rightarrow> (string \<times> string) list" where
  "WyronGrpcClient_metadata self =
     (case WyronGrpcClient.token self of
        None \<Rightarrow> []
      | Some t \<Rightarrow> if t = [] then [] else [(''authorization'', ''Bearer '' @ t)])"

text \<open>\<open>login\<close> stores \<open>response.token\<close> as it is.\<close>

definition WyronGrpcClient_login ::
    "'m Channel \<Rightarrow> 'm WyronGrpcClient \<Rightarrow> (error + unit) \<times> 'm WyronGrpcClient" where
  "WyronGrpcClient_login ch self =
     (let u = WyronGrpcClient.username self; p = WyronGrpcClient.password self;
          t = WyronGrpcClient.timeout self;
          self1 = self\<lparr>calls := calls self @ [LoginCall u p t]\<rparr>
      in case Login ch (calls self) u p t of
           Inl e \<Rightarrow> (Inl e, self1)
         | Inr tok \<Rightarrow> (Inr (), self1\<lparr>WyronGrpcClient.token := Some tok\<rparr>))"

text \<open>\<open>func(request, metadata=self._metadata(), timeout=self.timeout)\<close>.\<close>

definition stub_call ::
    "'m Channel \<Rightarrow> 'm WyronGrpcClient \<Rightarrow> string \<Rightarrow> 'm \<Rightarrow> (error + 'm) \<times> 'm WyronGrpcClient" where
  "stub_call ch self func request =
     (let md = WyronGrpcClient_metadata self; t = WyronGrpcClient.timeout self
      in (invoke ch (calls self) func request md t,
          self\<lparr>calls := calls self @ [StubCall func request md t]\<rparr>))"

text \<open>
  \<open>_call\<close>: only a \<open>grpc.RpcError\<close> is caught, and only the code \<open>UNAUTHENTICATED\<close> leads
  to a new login and a second call; anything else is raised again.
\<close>

definition WyronGrpcClient_call ::
    "'m Channel \<Rightarrow> 'm WyronGrpcClient \<Rightarrow> string \<Rightarrow> 'm \<Rightarrow> (error + 'm) \<times> 'm WyronGrpcClient" where
  "WyronGrpcClient_call ch self func request =
     (case stub_call ch self func request of
        (Inr v, self1) \<Rightarrow> (Inr v, self1)
      | (Inl e, self1) \<Rightarrow>
          if e = RpcError UNAUTHENTICATED then
            (case WyronGrpcClient_login ch self1 of
               (Inl e', self2) \<Rightarrow> (Inl e', self2)
             | (Inr u, self2) \<Rightarrow> stub_call ch self2 func request)
          else (Inl e, self1))"

text \<open>
  \<open>list_users\<close>, up to the request it hands to \<open>_call(self.user.List, request)\<close>: the
  constructor sets the four mandatory fields, the assignments that follow set the
  optional ones.
\<close>

definition WyronGrpcClient_list_users_request ::
    "int option \<Rightarrow> string option \<Rightarrow> string option \<Rightarrow> int \<Rightarrow> int \<Rightarrow> string \<Rightarrow> string
     \<Rightarrow> ListUsersRequest" where
  "WyronGrpcClient_list_users_request = (\<lambda>social_id status search limit skip sort order.
     (let request = \<lparr>ListUsersRequest.limit = limit, skip = skip, sort = sort, order = order,
                      social_id = None, status = None, search = None\<rparr>;
          request = (case social_id of None \<Rightarrow> request
                     | Some i \<Rightarrow> request\<lparr>ListUsersRequest.social_id := Some i\<rparr>);
          request = (case status of None \<Rightarrow> request
                     | Some s \<Rightarrow> if s = [] then request
                                else request\<lparr>ListUsersRequest.status := Some s\<rparr>);
          request = (case search of None \<Rightarrow> request
                     | Some s \<Rightarrow> if s = [] then request
                                else request\<lparr>ListUsersRequest.search := Some s\<rparr>)
      in request))"

subsection \<open>What one operation sent\<close>

fun is_request :: "http_call \<Rightarrow> bool" where
  "is_request (SessionRequest m u h t kw) = True"
| "is_request (SessionPost u j t) = False"

fun is_stub_call :: "'m rpc_call \<Rightarrow> bool" where
  "is_stub_call (StubCall f r md t) = True"
| "is_stub_call (LoginCall u p t) = False"

text \<open>
  The calls an operation added to the session (to the channel), and among them the
  number of attempts of the operation's own call and the number of logins.
\<close>

definition made :: "WyronClient \<Rightarrow> WyronClient \<Rightarrow> http_call list" where
  "made before after = drop (length (session before)) (session after)"

definition attempts :: "http_call list \<Rightarrow> nat" where
  "attempts cs = length (filter is_request cs)"

definition logins :: "http_call list \<Rightarrow> nat" where
  "logins cs = length (filter (\<lambda>c. \<not> is_request c) cs)"

definition grpc_made :: "'m WyronGrpcClient \<Rightarrow> 'm WyronGrpcClient \<Rightarrow> 'm rpc_call list" where
  "grpc_made before after = drop (length (calls before)) (calls after)"

definition grpc_attempts :: "'m rpc_call list \<Rightarrow> nat" where
  "grpc_attempts cs = length (filter is_stub_call cs)"

definition grpc_logins :: "'m rpc_call list \<Rightarrow> nat" where
  "grpc_logins cs = length (filter (\<lambda>c. \<not> is_stub_call c) cs)"

subsection \<open>Clients and environments to run the operations on\<close>

definition example_client :: WyronClient where
  "example_client =
     \<lparr>base_url = ''https://vpn.example.com/api'', WyronClient.username = ''admin'',
      WyronClient.password = ''secret'', WyronClient.token = JStr ''T0'',
      WyronClient.timeout = 15, session = []\<rparr>"

text \<open>A service that answers 401 to everything, the login included (revoked credentials).\<close>

definition rejects_everything :: Transport where
  "rejects_everything log c = Inr \<lparr>status_code = 401, body = Some (JObject [])\<rparr>"

text \<open>
  A service on which the token \<open>T0\<close> has expired: a login answers the new token \<open>T1\<close>,
  a request is answered when it carries \<open>T1\<close> and gets 401 otherwise.
\<close>

definition token_expired :: Transport where
  "token_expired log c =
     (case c of
        SessionPost u j t \<Rightarrow>
          Inr \<lparr>status_code = 200, body = Some (JObject [(''token'', JStr ''T1'')])\<rparr>
      | SessionRequest m u h t kw \<Rightarrow>
          if map_of h ''Authorization'' = Some (Bearer (JStr ''T1''))
          then Inr \<lparr>status_code = 200, body = Some (JObject [(''data'', JList [])])\<rparr>
          else Inr \<lparr>status_code = 401, body = Some (JObject [])\<rparr>)"

text \<open>A service that hands out tokens and then refuses them.\<close>

definition refuses_tokens :: Transport where
  "refuses_tokens log c =
     (case c of
        SessionPost u j t \<Rightarrow>
          Inr \<lparr>status_code = 200, body = Some (JObject [(''token'', JStr ''T1'')])\<rparr>
      | SessionRequest m u h t kw \<Rightarrow> Inr \<lparr>status_code = 401, body = Some (JObject [])\<rparr>)"

text \<open>
  A service whose login answers a number as the token, and which answers 401 to every
  request.
\<close>

definition numeric_token :: Transport where
  "numeric_token log c =
     (case c of
        SessionPost u j t \<Rightarrow>
          Inr \<lparr>status_code = 200, body = Some (JObject [(''token'', JInt 7)])\<rparr>
      | SessionRequest m u h t kw \<Rightarrow> Inr \<lparr>status_code = 401, body = Some (JObject [])\<rparr>)"

definition times_out :: Transport where
  "times_out log c = Inl (TransportError ''timeout'')"

definition server_error :: Transport where
  "server_error log c = Inr \<lparr>status_code = 503, body = None\<rparr>"

text \<open>A service whose login answers 200 with a JSON object that holds no usable token.\<close>

definition login_without_token :: "json \<Rightarrow> Transport" where
  "login_without_token j log c = Inr \<lparr>status_code = 200, body = Some j\<rparr>"

definition example_grpc_client :: "string WyronGrpcClient" where
  "example_grpc_client =
     \<lparr>host = ''vpn.example.com:443'', WyronGrpcClient.username = ''admin'',
      WyronGrpcClient.password = ''secret'', WyronGrpcClient.timeout = 15,
      WyronGrpcClient.token = Some ''T0'', calls = []\<rparr>"

definition grpc_rejects_everything :: "string Channel" where
  "grpc_rejects_everything =
     \<lparr>Login = (\<lambda>log u p t. Inl (RpcError UNAUTHENTICATED)),
      invoke = (\<lambda>log f r md t. Inl (RpcError UNAUTHENTICATED))\<rparr>"

definition grpc_token_expired :: "string Channel" where
  "grpc_token_expired =
     \<lparr>Login = (\<lambda>log u p t. Inr ''T1''),
      invoke = (\<lambda>log f r md t.
        if map_of md ''authorization'' = Some ''Bearer T1'' then Inr ''ok''
        else Inl (RpcError UNAUTHENTICATED))\<rparr>"

definition grpc_refuses_tokens :: "string Channel" where
  "grpc_refuses_tokens =
     \<lparr>Login = (\<lambda>log u p t. Inr ''T1''),
      invoke = (\<lambda>log f r md t. Inl (RpcError UNAUTHENTICATED))\<rparr>"

definition grpc_times_out :: "string Channel" where
  "grpc_times_out =
     \<lparr>Login = (\<lambda>log u p t. Inl (RpcError DEADLINE_EXCEEDED)),
      invoke = (\<lambda>log f r md t. Inl (RpcError DEADLINE_EXCEEDED))\<rparr>"

text \<open>A service whose \<open>Login\<close> answers a \<open>LoginResponse\<close> with the token field not set.\<close>

definition grpc_login_without_token :: "string Channel" where
  "grpc_login_without_token =
     \<lparr>Login = (\<lambda>log u p t. Inr ''''),
      invoke = (\<lambda>log f r md t. Inl (RpcError UNAUTHENTICATED))\<rparr>"

section \<open>The config renderer: order of the checks\<close>

lemma generate_config_no_key:
  "falsy (private_key self) \<Longrightarrow>
   generate_config self = Inl (InterfaceMissingKey ''Peer private_key missing'')"
  by (simp add: generate_config_def)

lemma generate_config_unbound:
  "\<not> falsy (private_key self) \<Longrightarrow>
   client self = None \<or> (\<exists>c. client self = Some c \<and> \<not> truthy c) \<Longrightarrow>
   generate_config self = Inl (InterfaceNotFound ''Peer has no client bound'')"
  by (auto simp: generate_config_def resolve_iface_def resolve_server_def)

lemma generate_config_resolver_raises:
  "\<not> falsy (private_key self) \<Longrightarrow> client self = Some c \<Longrightarrow> truthy c \<Longrightarrow>
   get_server c (server_id self) = Inl e \<Longrightarrow>
   generate_config self = Inl e"
  by (simp add: generate_config_def resolve_iface_def resolve_server_def)

lemma find_None_names:
  "(find (\<lambda>i. WireGuardInterface.name i = n) xs = None) =
   (\<forall>i \<in> set xs. WireGuardInterface.name i \<noteq> n)"
  by (auto simp: find_None_iff)

lemma generate_config_no_iface:
  "\<not> falsy (private_key self) \<Longrightarrow> client self = Some c \<Longrightarrow> truthy c \<Longrightarrow>
   get_server c (server_id self) = Inr server \<Longrightarrow>
   \<forall>i \<in> set (interfaces server). WireGuardInterface.name i \<noteq> interface self \<Longrightarrow>
   generate_config self = Inl (InterfaceNotFound (not_found_message self))"
  using find_None_names [of "interface self" "interfaces server"]
  by (simp add: generate_config_def resolve_iface_def resolve_server_def)

lemma generate_config_matched:
  "\<not> falsy (private_key self) \<Longrightarrow> client self = Some c \<Longrightarrow> truthy c \<Longrightarrow>
   get_server c (server_id self) = Inr server \<Longrightarrow>
   find (\<lambda>i. WireGuardInterface.name i = interface self) (interfaces server) = Some iface \<Longrightarrow>
   generate_config self =
     (if falsy (endpoint iface) then Inl (InterfaceMissingKey ''Interface endpoint missing'')
      else if falsy (public_key iface) then Inl (InterfaceMissingKey ''Interface public_key missing'')
      else Inr (render self iface))"
  by (simp add: generate_config_def resolve_iface_def resolve_server_def)

lemma generate_config_Inr:
  "generate_config self = Inr cfg \<Longrightarrow>
   \<not> falsy (private_key self) \<and>
   (\<exists>c server iface. client self = Some c \<and> truthy c
      \<and> get_server c (server_id self) = Inr server
      \<and> find (\<lambda>i. WireGuardInterface.name i = interface self) (interfaces server) = Some iface
      \<and> \<not> falsy (endpoint iface) \<and> \<not> falsy (public_key iface)
      \<and> cfg = render self iface)"
  by (auto simp: generate_config_def resolve_iface_def resolve_server_def
           split: if_splits sum.splits option.splits)

lemma example_find:
  "find (\<lambda>i. WireGuardInterface.name i = ''wg0'') (interfaces example_server) = Some example_iface"
  by (simp add: example_server_def example_iface_def)

lemma example_key: "\<not> falsy (private_key example_peer)"
  by (simp add: falsy_def example_peer_def)


lemma example_resolver_answer: "get_server example_resolver ''srv1'' = Inr example_server"
  by (simp add: example_resolver_def)

text \<open>
  C1, as stated, fails. The second check is \<open>if not self._client\<close>, a test of the truth
  value of the field and not of whether a resolver is bound. A peer with a private key,
  bound to a resolver object that is false and whose \<open>get_server\<close> answers a server that
  has the peer's interface with an endpoint and a public key, passes the four checks as
  the claim words them, and is still refused with the not-bound error: its resolver is
  never called.
\<close>

theorem bound_false_resolver_is_refused:
  "client (example_peer\<lparr>client := Some (example_resolver\<lparr>truthy := False\<rparr>)\<rparr>) \<noteq> None
   \<and> \<not> falsy (private_key (example_peer\<lparr>client := Some (example_resolver\<lparr>truthy := False\<rparr>)\<rparr>))
   \<and> get_server (example_resolver\<lparr>truthy := False\<rparr>) ''srv1'' = Inr example_server
   \<and> find (\<lambda>i. WireGuardInterface.name i = ''wg0'') (interfaces example_server)
       = Some example_iface
   \<and> \<not> falsy (endpoint example_iface) \<and> \<not> falsy (public_key example_iface)
   \<and> generate_config (example_peer\<lparr>client := Some (example_resolver\<lparr>truthy := False\<rparr>)\<rparr>)
       = Inl (InterfaceNotFound ''Peer has no client bound'')"
proof -
  have "generate_config (example_peer\<lparr>client := Some (example_resolver\<lparr>truthy := False\<rparr>)\<rparr>)
       = Inl (InterfaceNotFound ''Peer has no client bound'')"
    using example_key by (intro generate_config_unbound) simp_all
  then show ?thesis
    using example_key example_find example_resolver_answer
    by (simp add: example_iface_def falsy_def example_resolver_def)
qed

text \<open>
  C1, amended. \<open>generate_config\<close> checks in this order and stops at the first check that
  fails: (1) a peer whose \<open>private_key\<close> is \<open>None\<close> or empty raises
  \<open>InterfaceMissingKey("Peer private_key missing")\<close>, whatever its other fields and
  whether or not a resolver is bound; (2) otherwise a peer whose \<open>_client\<close> is false, that
  is a peer with no resolver bound or bound to a resolver object whose truth value is
  false, raises the not-bound error, which the code writes as
  \<open>InterfaceNotFound("Peer has no client bound")\<close>; (3) otherwise, when the resolver
  returns a server none of whose interfaces has the peer's interface name, it raises
  \<open>InterfaceNotFound\<close> with the interface-not-found message; (4) otherwise, with
  \<open>iface\<close> the first interface of that name, an empty or absent \<open>endpoint\<close> raises
  \<open>InterfaceMissingKey("Interface endpoint missing")\<close> and, the endpoint being there, an
  empty or absent \<open>public_key\<close> raises \<open>InterfaceMissingKey("Interface public_key
  missing")\<close>; when all four checks pass the profile is rendered, and the profile is
  rendered only then.
\<close>

theorem generate_config_check_order:
  "(falsy (private_key self) \<longrightarrow>
      generate_config self = Inl (InterfaceMissingKey ''Peer private_key missing''))
   \<and> (\<not> falsy (private_key self)
        \<and> (client self = None \<or> (\<exists>c. client self = Some c \<and> \<not> truthy c)) \<longrightarrow>
      generate_config self = Inl (InterfaceNotFound ''Peer has no client bound''))
   \<and> (\<forall>c server. \<not> falsy (private_key self) \<and> client self = Some c \<and> truthy c
        \<and> get_server c (server_id self) = Inr server
        \<and> (\<forall>i \<in> set (interfaces server). WireGuardInterface.name i \<noteq> interface self) \<longrightarrow>
      generate_config self = Inl (InterfaceNotFound (not_found_message self)))
   \<and> (\<forall>c server iface. \<not> falsy (private_key self) \<and> client self = Some c \<and> truthy c
        \<and> get_server c (server_id self) = Inr server
        \<and> find (\<lambda>i. WireGuardInterface.name i = interface self) (interfaces server) = Some iface \<longrightarrow>
      (falsy (endpoint iface) \<longrightarrow>
         generate_config self = Inl (InterfaceMissingKey ''Interface endpoint missing''))
      \<and> (\<not> falsy (endpoint iface) \<and> falsy (public_key iface) \<longrightarrow>
         generate_config self = Inl (InterfaceMissingKey ''Interface public_key missing''))
      \<and> (\<not> falsy (endpoint iface) \<and> \<not> falsy (public_key iface) \<longrightarrow>
         generate_config self = Inr (render self iface)))
   \<and> (\<forall>cfg. generate_config self = Inr cfg \<longrightarrow>
        \<not> falsy (private_key self)
        \<and> (\<exists>c server iface. client self = Some c \<and> truthy c
             \<and> get_server c (server_id self) = Inr server
             \<and> find (\<lambda>i. WireGuardInterface.name i = interface self) (interfaces server) = Some iface
             \<and> \<not> falsy (endpoint iface) \<and> \<not> falsy (public_key iface)
             \<and> cfg = render self iface))"
proof (intro conjI allI impI)
  show "generate_config self = Inl (InterfaceMissingKey ''Peer private_key missing'')"
    if "falsy (private_key self)"
    using that by (rule generate_config_no_key)
next
  show "generate_config self = Inl (InterfaceNotFound ''Peer has no client bound'')"
    if "\<not> falsy (private_key self)
        \<and> (client self = None \<or> (\<exists>c. client self = Some c \<and> \<not> truthy c))"
    using that generate_config_unbound [of self] by blast
next
  fix c server
  assume "\<not> falsy (private_key self) \<and> client self = Some c \<and> truthy c
        \<and> get_server c (server_id self) = Inr server
        \<and> (\<forall>i \<in> set (interfaces server). WireGuardInterface.name i \<noteq> interface self)"
  then show "generate_config self = Inl (InterfaceNotFound (not_found_message self))"
    by (simp add: generate_config_no_iface)
next
  fix c server iface
  assume h: "\<not> falsy (private_key self) \<and> client self = Some c \<and> truthy c
        \<and> get_server c (server_id self) = Inr server
        \<and> find (\<lambda>i. WireGuardInterface.name i = interface self) (interfaces server) = Some iface"
  then have m: "generate_config self =
     (if falsy (endpoint iface) then Inl (InterfaceMissingKey ''Interface endpoint missing'')
      else if falsy (public_key iface) then Inl (InterfaceMissingKey ''Interface public_key missing'')
      else Inr (render self iface))"
    by (simp add: generate_config_matched)
  show "generate_config self = Inl (InterfaceMissingKey ''Interface endpoint missing'')"
    if "falsy (endpoint iface)" using that m by simp
  show "generate_config self = Inl (InterfaceMissingKey ''Interface public_key missing'')"
    if "\<not> falsy (endpoint iface) \<and> falsy (public_key iface)" using that m by simp
  show "generate_config self = Inr (render self iface)"
    if "\<not> falsy (endpoint iface) \<and> \<not> falsy (public_key iface)" using that m by simp
next
  fix cfg
  assume r: "generate_config self = Inr cfg"
  show "\<not> falsy (private_key self)"
    using generate_config_Inr [OF r] by simp
  show "\<exists>c server iface. client self = Some c \<and> truthy c
             \<and> get_server c (server_id self) = Inr server
             \<and> find (\<lambda>i. WireGuardInterface.name i = interface self) (interfaces server) = Some iface
             \<and> \<not> falsy (endpoint iface) \<and> \<not> falsy (public_key iface)
             \<and> cfg = render self iface"
    using generate_config_Inr [OF r] by simp
qed

theorem generate_config_check_order_witness:
  "generate_config (example_peer\<lparr>private_key := None\<rparr>)
     = Inl (InterfaceMissingKey ''Peer private_key missing'')
   \<and> generate_config (example_peer\<lparr>private_key := Some '''', client := None\<rparr>)
     = Inl (InterfaceMissingKey ''Peer private_key missing'')
   \<and> generate_config (example_peer\<lparr>client := None\<rparr>)
     = Inl (InterfaceNotFound ''Peer has no client bound'')
   \<and> generate_config (example_peer\<lparr>client := Some (example_resolver\<lparr>truthy := False\<rparr>)\<rparr>)
     = Inl (InterfaceNotFound ''Peer has no client bound'')
   \<and> generate_config (example_peer\<lparr>interface := ''wg9''\<rparr>)
     = Inl (InterfaceNotFound (not_found_message (example_peer\<lparr>interface := ''wg9''\<rparr>)))
   \<and> generate_config (example_peer\<lparr>client :=
        Some (always (example_server\<lparr>interfaces :=
          [example_iface\<lparr>endpoint := None, public_key := None\<rparr>]\<rparr>))\<rparr>)
     = Inl (InterfaceMissingKey ''Interface endpoint missing'')
   \<and> generate_config (example_peer\<lparr>client :=
        Some (always (example_server\<lparr>interfaces :=
          [example_iface\<lparr>public_key := Some ''''\<rparr>]\<rparr>))\<rparr>)
     = Inl (InterfaceMissingKey ''Interface public_key missing'')
   \<and> generate_config example_peer = Inr (render example_peer example_iface)
   \<and> \<not> falsy (private_key example_peer)"
proof -
  let ?p1 = "example_peer\<lparr>private_key := None\<rparr>"
  let ?p1' = "example_peer\<lparr>private_key := Some '''', client := None\<rparr>"
  let ?p2 = "example_peer\<lparr>client := None\<rparr>"
  let ?p2' = "example_peer\<lparr>client := Some (example_resolver\<lparr>truthy := False\<rparr>)\<rparr>"
  let ?p3 = "example_peer\<lparr>interface := ''wg9''\<rparr>"
  let ?i4 = "example_iface\<lparr>endpoint := None, public_key := None\<rparr>"
  let ?s4 = "example_server\<lparr>interfaces := [?i4]\<rparr>"
  let ?p4 = "example_peer\<lparr>client := Some (always ?s4)\<rparr>"
  let ?i5 = "example_iface\<lparr>public_key := Some ''''\<rparr>"
  let ?s5 = "example_server\<lparr>interfaces := [?i5]\<rparr>"
  let ?p5 = "example_peer\<lparr>client := Some (always ?s5)\<rparr>"
  note key = example_key
  have c1: "generate_config ?p1 = Inl (InterfaceMissingKey ''Peer private_key missing'')"
    using generate_config_check_order [of ?p1, THEN conjunct1]
    by (simp add: falsy_def)
  have c1': "generate_config ?p1' = Inl (InterfaceMissingKey ''Peer private_key missing'')"
    using generate_config_check_order [of ?p1', THEN conjunct1]
    by (simp add: falsy_def)
  have c2: "generate_config ?p2 = Inl (InterfaceNotFound ''Peer has no client bound'')"
    using generate_config_check_order [of ?p2, THEN conjunct2, THEN conjunct1] key
    by simp
  have c2': "generate_config ?p2' = Inl (InterfaceNotFound ''Peer has no client bound'')"
    using generate_config_check_order [of ?p2', THEN conjunct2, THEN conjunct1] key
    by simp
  have c3: "generate_config ?p3 = Inl (InterfaceNotFound (not_found_message ?p3))"
    using generate_config_check_order [of ?p3, THEN conjunct2, THEN conjunct2, THEN conjunct1,
        rule_format, of example_resolver example_server] key
    by (simp add: example_peer_def example_resolver_def example_server_def example_iface_def)
  have c4: "generate_config ?p4 = Inl (InterfaceMissingKey ''Interface endpoint missing'')"
    using generate_config_check_order [of ?p4, THEN conjunct2, THEN conjunct2, THEN conjunct2,
        THEN conjunct1, rule_format, of "always ?s4" ?s4 ?i4, THEN conjunct1] key
    by (simp add: example_peer_def example_iface_def falsy_def always_def)
  have c5: "generate_config ?p5 = Inl (InterfaceMissingKey ''Interface public_key missing'')"
    using generate_config_check_order [of ?p5, THEN conjunct2, THEN conjunct2, THEN conjunct2,
        THEN conjunct1, rule_format, of "always ?s5" ?s5 ?i5, THEN conjunct2, THEN conjunct1] key
    by (simp add: example_peer_def example_iface_def falsy_def always_def)
  have c6: "generate_config example_peer = Inr (render example_peer example_iface)"
    using generate_config_check_order [of example_peer, THEN conjunct2, THEN conjunct2,
        THEN conjunct2, THEN conjunct1, rule_format, of example_resolver example_server
        example_iface, THEN conjunct2, THEN conjunct2] key example_find
    by (simp add: example_peer_def example_resolver_def example_iface_def falsy_def)
  have c7: "\<not> falsy (private_key example_peer)"
    using generate_config_check_order [of example_peer, THEN conjunct2, THEN conjunct2,
        THEN conjunct2, THEN conjunct2, rule_format, of "render example_peer example_iface"] c6
    by simp
  show ?thesis
    using c1 c1' c2 c2' c3 c4 c5 c6 c7 by simp
qed

section \<open>The config renderer: error classes\<close>

text \<open>
  C2, as stated, fails: an unbound peer and a peer whose interface is not on the resolved
  server both raise \<open>InterfaceNotFound\<close>; only the message tells them apart.
\<close>

theorem unbound_and_not_found_same_class:
  "raised_class (generate_config (example_peer\<lparr>client := None\<rparr>)) = Some InterfaceNotFound_class
   \<and> raised_class (generate_config (example_peer\<lparr>interface := ''wg9''\<rparr>)) = Some InterfaceNotFound_class"
proof -
  have a: "generate_config (example_peer\<lparr>client := None\<rparr>)
             = Inl (InterfaceNotFound ''Peer has no client bound'')"
    using example_key by (intro generate_config_unbound) simp_all
  have b: "generate_config (example_peer\<lparr>interface := ''wg9''\<rparr>)
             = Inl (InterfaceNotFound (not_found_message (example_peer\<lparr>interface := ''wg9''\<rparr>)))"
    using example_key
    by (intro generate_config_no_iface [of _ example_resolver example_server])
       (simp_all add: example_peer_def example_resolver_def example_server_def example_iface_def)
  show ?thesis using a b by simp
qed

text \<open>
  C2, amended. The renderer raises two classes of exception. A missing key (the peer's
  \<open>private_key\<close>, or the matched interface's \<open>endpoint\<close> or \<open>public_key\<close>) raises
  \<open>InterfaceMissingKey\<close>; an unbound peer (no resolver bound, or a bound resolver object
  that is false) and an interface that is not on the resolved server both raise
  \<open>InterfaceNotFound\<close>, a class different from \<open>InterfaceMissingKey\<close>.
  A caller can branch on the class between a missing key and the other two; between an
  unbound peer and an interface not found only the messages differ, and they always do.
\<close>

theorem generate_config_error_classes:
  "(falsy (private_key self) \<longrightarrow>
      raised_class (generate_config self) = Some InterfaceMissingKey_class)
   \<and> (\<not> falsy (private_key self)
        \<and> (client self = None \<or> (\<exists>c. client self = Some c \<and> \<not> truthy c)) \<longrightarrow>
      generate_config self = Inl (InterfaceNotFound ''Peer has no client bound''))
   \<and> (\<forall>c server. \<not> falsy (private_key self) \<and> client self = Some c \<and> truthy c
        \<and> get_server c (server_id self) = Inr server
        \<and> (\<forall>i \<in> set (interfaces server). WireGuardInterface.name i \<noteq> interface self) \<longrightarrow>
      generate_config self = Inl (InterfaceNotFound (not_found_message self)))
   \<and> (\<forall>c server iface. \<not> falsy (private_key self) \<and> client self = Some c \<and> truthy c
        \<and> get_server c (server_id self) = Inr server
        \<and> find (\<lambda>i. WireGuardInterface.name i = interface self) (interfaces server) = Some iface
        \<and> (falsy (endpoint iface) \<or> falsy (public_key iface)) \<longrightarrow>
      raised_class (generate_config self) = Some InterfaceMissingKey_class)
   \<and> class_of (InterfaceNotFound ''Peer has no client bound'')
       = class_of (InterfaceNotFound (not_found_message self))
   \<and> class_of (InterfaceNotFound (not_found_message self)) \<noteq> InterfaceMissingKey_class
   \<and> not_found_message self \<noteq> ''Peer has no client bound''"
proof (intro conjI allI impI)
  show "raised_class (generate_config self) = Some InterfaceMissingKey_class"
    if "falsy (private_key self)"
    using that by (simp add: generate_config_no_key)
next
  show "generate_config self = Inl (InterfaceNotFound ''Peer has no client bound'')"
    if "\<not> falsy (private_key self)
        \<and> (client self = None \<or> (\<exists>c. client self = Some c \<and> \<not> truthy c))"
    using that generate_config_unbound [of self] by blast
next
  fix c server
  assume "\<not> falsy (private_key self) \<and> client self = Some c \<and> truthy c
        \<and> get_server c (server_id self) = Inr server
        \<and> (\<forall>i \<in> set (interfaces server). WireGuardInterface.name i \<noteq> interface self)"
  then show "generate_config self = Inl (InterfaceNotFound (not_found_message self))"
    by (simp add: generate_config_no_iface)
next
  fix c server iface
  assume h: "\<not> falsy (private_key self) \<and> client self = Some c \<and> truthy c
        \<and> get_server c (server_id self) = Inr server
        \<and> find (\<lambda>i. WireGuardInterface.name i = interface self) (interfaces server) = Some iface
        \<and> (falsy (endpoint iface) \<or> falsy (public_key iface))"
  then have "generate_config self =
     (if falsy (endpoint iface) then Inl (InterfaceMissingKey ''Interface endpoint missing'')
      else if falsy (public_key iface) then Inl (InterfaceMissingKey ''Interface public_key missing'')
      else Inr (render self iface))"
    by (simp add: generate_config_matched)
  with h show "raised_class (generate_config self) = Some InterfaceMissingKey_class"
    by auto
next
  show "class_of (InterfaceNotFound ''Peer has no client bound'')
       = class_of (InterfaceNotFound (not_found_message self))"
    by simp
  show "class_of (InterfaceNotFound (not_found_message self)) \<noteq> InterfaceMissingKey_class"
    by simp
  show "not_found_message self \<noteq> ''Peer has no client bound''"
    by (simp add: not_found_message_def)
qed

theorem generate_config_error_classes_witness:
  "raised_class (generate_config (example_peer\<lparr>private_key := None\<rparr>))
     = Some InterfaceMissingKey_class
   \<and> generate_config (example_peer\<lparr>client := None\<rparr>)
     = Inl (InterfaceNotFound ''Peer has no client bound'')
   \<and> generate_config (example_peer\<lparr>client := Some (example_resolver\<lparr>truthy := False\<rparr>)\<rparr>)
     = Inl (InterfaceNotFound ''Peer has no client bound'')
   \<and> generate_config (example_peer\<lparr>interface := ''wg9''\<rparr>)
     = Inl (InterfaceNotFound (not_found_message (example_peer\<lparr>interface := ''wg9''\<rparr>)))
   \<and> raised_class (generate_config (example_peer\<lparr>client :=
        Some (always (example_server\<lparr>interfaces :=
          [example_iface\<lparr>public_key := None\<rparr>]\<rparr>))\<rparr>))
     = Some InterfaceMissingKey_class"
proof -
  let ?p1 = "example_peer\<lparr>private_key := None\<rparr>"
  let ?p2 = "example_peer\<lparr>client := None\<rparr>"
  let ?p3 = "example_peer\<lparr>interface := ''wg9''\<rparr>"
  let ?i4 = "example_iface\<lparr>public_key := None\<rparr>"
  let ?s4 = "example_server\<lparr>interfaces := [?i4]\<rparr>"
  let ?p4 = "example_peer\<lparr>client := Some (always ?s4)\<rparr>"
  let ?p2' = "example_peer\<lparr>client := Some (example_resolver\<lparr>truthy := False\<rparr>)\<rparr>"
  note key = example_key
  have c2': "generate_config ?p2' = Inl (InterfaceNotFound ''Peer has no client bound'')"
    using generate_config_error_classes [of ?p2', THEN conjunct2, THEN conjunct1] key
    by simp
  have c1: "raised_class (generate_config ?p1) = Some InterfaceMissingKey_class"
    using generate_config_error_classes [of ?p1, THEN conjunct1]
    by (simp add: falsy_def)
  have c2: "generate_config ?p2 = Inl (InterfaceNotFound ''Peer has no client bound'')"
    using generate_config_error_classes [of ?p2, THEN conjunct2, THEN conjunct1] key
    by simp
  have c3: "generate_config ?p3 = Inl (InterfaceNotFound (not_found_message ?p3))"
    using generate_config_error_classes [of ?p3, THEN conjunct2, THEN conjunct2, THEN conjunct1,
        rule_format, of example_resolver example_server] key
    by (simp add: example_peer_def example_resolver_def example_server_def example_iface_def)
  have c4: "raised_class (generate_config ?p4) = Some InterfaceMissingKey_class"
    using generate_config_error_classes [of ?p4, THEN conjunct2, THEN conjunct2, THEN conjunct2,
        THEN conjunct1, rule_format, of "always ?s4" ?s4 ?i4] key
    by (simp add: example_peer_def example_iface_def falsy_def always_def)
  show ?thesis
    using c1 c2 c2' c3 c4 by simp
qed

section \<open>The config renderer: the rendered text\<close>






section \<open>The config renderer: determinism\<close>

text \<open>
  C7. \<open>generate_config\<close> reads the peer's fields and what the bound resolver answers for
  the peer's \<open>server_id\<close>, and nothing else (no clock, no random source, no state of its
  own): two peers with the same field values whose resolvers are both unbound, or both
  answer the same (the same server, or the same exception), give the same result, the
  same text character for character when rendering succeeds. And a rendered text is a
  function of the peer's \<open>allowed_address\<close> and \<open>private_key\<close> and of the matched
  interface's \<open>dns\<close>, \<open>endpoint\<close>, \<open>port\<close> and \<open>public_key\<close> alone: two successful
  renderings that agree on these six values are the same text, whatever else differs.
\<close>

theorem generate_config_deterministic:
  "(server_id p = server_id q \<and> interface p = interface q
    \<and> allowed_address p = allowed_address q \<and> private_key p = private_key q
    \<and> resolve_server p = resolve_server q
    \<longrightarrow> generate_config p = generate_config q)
   \<and> (\<forall>a b i j. generate_config p = Inr a \<and> generate_config q = Inr b
        \<and> resolve_iface p = Inr i \<and> resolve_iface q = Inr j
        \<and> allowed_address p = allowed_address q \<and> private_key p = private_key q
        \<and> dns i = dns j \<and> endpoint i = endpoint j \<and> port i = port j
        \<and> public_key i = public_key j
        \<longrightarrow> a = b)"
proof (intro conjI allI impI)
  assume h: "server_id p = server_id q \<and> interface p = interface q
    \<and> allowed_address p = allowed_address q \<and> private_key p = private_key q
    \<and> resolve_server p = resolve_server q"
  then have m: "not_found_message p = not_found_message q"
    by (simp add: not_found_message_def)
  have i: "resolve_iface p = resolve_iface q"
    using h m by (auto simp: resolve_iface_def split: sum.splits option.splits)
  have r: "render p x = render q x" for x
    using h by (simp add: render_def)
  show "generate_config p = generate_config q"
    using h i r by (simp add: generate_config_def split: sum.splits)
next
  fix a b i j
  assume h: "generate_config p = Inr a \<and> generate_config q = Inr b
        \<and> resolve_iface p = Inr i \<and> resolve_iface q = Inr j
        \<and> allowed_address p = allowed_address q \<and> private_key p = private_key q
        \<and> dns i = dns j \<and> endpoint i = endpoint j \<and> port i = port j
        \<and> public_key i = public_key j"
  then have a: "a = render p i" and b: "b = render q j"
    by (auto simp: generate_config_def split: if_splits)
  show "a = b"
    using h unfolding a b by (simp add: render_def)
qed

theorem generate_config_deterministic_witness:
  "generate_config (example_peer\<lparr>client := Some (always example_server)\<rparr>)
     = generate_config example_peer
   \<and> generate_config (example_peer\<lparr>server_id := ''srv2'', interface := ''wg1'',
        client := Some (always (example_server\<lparr>Server.name := ''srv2'', interfaces :=
          [example_iface\<lparr>WireGuardInterface.name := ''wg1'', subnet := Some ''10.0.0.0/24''\<rparr>]\<rparr>))\<rparr>)
     = generate_config example_peer"
proof -
  let ?p = "example_peer\<lparr>client := Some (always example_server)\<rparr>"
  let ?i = "example_iface\<lparr>WireGuardInterface.name := ''wg1'', subnet := Some ''10.0.0.0/24''\<rparr>"
  let ?s = "example_server\<lparr>Server.name := ''srv2'', interfaces := [?i]\<rparr>"
  let ?q = "example_peer\<lparr>server_id := ''srv2'', interface := ''wg1'',
        client := Some (always ?s)\<rparr>"
  have c1: "generate_config ?p = generate_config example_peer"
    using generate_config_deterministic [of ?p example_peer, THEN conjunct1]
    by (simp add: resolve_server_def example_peer_def example_resolver_def always_def)
  have g: "generate_config example_peer = Inr (render example_peer example_iface)"
    using generate_config_matched [of example_peer example_resolver example_server example_iface]
      example_key example_find
    by (simp add: example_peer_def example_resolver_def example_iface_def falsy_def)
  have g': "generate_config ?q = Inr (render ?q ?i)"
    using generate_config_matched [of ?q "always ?s" ?s ?i] example_key
    by (simp add: example_peer_def example_iface_def falsy_def always_def)
  have ri: "resolve_iface example_peer = Inr example_iface"
    using example_find
    by (simp add: resolve_iface_def resolve_server_def example_peer_def example_resolver_def)
  have ri': "resolve_iface ?q = Inr ?i"
    by (simp add: resolve_iface_def resolve_server_def example_peer_def always_def)
  have "render ?q ?i = render example_peer example_iface"
    using generate_config_deterministic [of ?q example_peer, THEN conjunct2, rule_format,
        of "render ?q ?i" "render example_peer example_iface" ?i example_iface]
      g g' ri ri'
    by simp
  then have c2: "generate_config ?q = generate_config example_peer"
    using g g' by simp
  show ?thesis using c1 c2 by simp
qed


section \<open>Record parsers: interface lists\<close>

lemma as_str_ok: "is_str (Some v) \<Longrightarrow> \<exists>x. as_str k v = Inr x"
  by (cases v) simp_all

lemma as_opt_str_ok: "is_opt_str v \<Longrightarrow> \<exists>x. as_opt_str k v = Inr x"
  by (cases "(k, v)" rule: as_opt_str.cases) simp_all

lemma as_opt_int_ok: "is_opt_int v \<Longrightarrow> \<exists>x. as_opt_int k v = Inr x"
  by (cases "(k, v)" rule: as_opt_int.cases) simp_all

lemma is_str_Some: "is_str v \<Longrightarrow> \<exists>j. v = Some j \<and> is_str (Some j)"
  by (cases v) simp_all

lemma WireGuardInterface_init_ok:
  assumes "interface_kwargs_ok x"
  shows "\<exists>i. WireGuardInterface_init x = Inr i"
proof -
  obtain kw where x: "x = JObject kw"
    using assms by (cases x) simp_all
  from assms x obtain n where n: "map_of kw ''name'' = Some n" "is_str (Some n)"
    using is_str_Some [of "map_of kw ''name''"] by auto
  obtain v1 where v1: "as_str ''name'' n = Inr v1"
    using as_str_ok [OF n(2)] by blast
  obtain v2 where v2: "as_opt_str ''display_name'' (map_of kw ''display_name'') = Inr v2"
    using assms x as_opt_str_ok by fastforce
  obtain v3 where v3: "as_opt_str ''subnet'' (map_of kw ''subnet'') = Inr v3"
    using assms x as_opt_str_ok by fastforce
  obtain v4 where v4: "as_opt_str ''endpoint'' (map_of kw ''endpoint'') = Inr v4"
    using assms x as_opt_str_ok by fastforce
  obtain v5 where v5: "as_opt_str ''dns'' (map_of kw ''dns'') = Inr v5"
    using assms x as_opt_str_ok by fastforce
  obtain v6 where v6: "as_opt_int ''port'' (map_of kw ''port'') = Inr v6"
    using assms x as_opt_int_ok by fastforce
  obtain v7 where v7: "as_opt_int ''created_at'' (map_of kw ''created_at'') = Inr v7"
    using assms x as_opt_int_ok by fastforce
  obtain v8 where v8: "as_opt_str ''public_key'' (map_of kw ''public_key'') = Inr v8"
    using assms x as_opt_str_ok by fastforce
  have "list_all (\<lambda>k. k \<in> set interface_fields) (map fst kw)"
    using assms x by simp
  then show ?thesis
    unfolding x by (simp add: n v1 v2 v3 v4 v5 v6 v7 v8)
qed

lemma map_err_ok:
  "list_all (\<lambda>x. \<exists>y. f x = Inr y) xs \<Longrightarrow> \<exists>ys. map_err f xs = Inr ys"
  by (induction xs) auto

lemma map_err_Inr:
  "map_err f xs = Inr ys \<Longrightarrow>
   length ys = length xs \<and> (\<forall>n < length xs. f (xs ! n) = Inr (ys ! n))"
proof (induction xs arbitrary: ys)
  case Nil
  then show ?case by simp
next
  case (Cons x xs)
  from Cons.prems obtain y where y: "f x = Inr y"
    by (cases "f x") simp_all
  from Cons.prems y obtain zs where zs: "map_err f xs = Inr zs"
    by (cases "map_err f xs") simp_all
  from Cons.prems y zs have ys: "ys = y # zs" by simp
  have ih: "length zs = length xs \<and> (\<forall>n < length xs. f (xs ! n) = Inr (zs ! n))"
    using Cons.IH [OF zs] .
  show ?case
    unfolding ys using ih y by (auto simp: nth_Cons split: nat.splits)
qed

lemma Server_init_ok:
  assumes "server_kwargs_ok s"
  shows "\<exists>srv. Server_init s ifaces = Inr srv \<and> interfaces srv = ifaces"
proof -
  from assms obtain n where n: "map_of s ''name'' = Some n" "is_str (Some n)"
    using is_str_Some [of "map_of s ''name''"] by (auto simp: server_kwargs_ok_def)
  from assms obtain a where a: "map_of s ''address'' = Some a" "is_str (Some a)"
    using is_str_Some [of "map_of s ''address''"] by (auto simp: server_kwargs_ok_def)
  from assms obtain u where u: "map_of s ''username'' = Some u" "is_str (Some u)"
    using is_str_Some [of "map_of s ''username''"] by (auto simp: server_kwargs_ok_def)
  obtain v1 where v1: "as_str ''name'' n = Inr v1"
    using as_str_ok [OF n(2)] by blast
  obtain v2 where v2: "as_str ''address'' a = Inr v2"
    using as_str_ok [OF a(2)] by blast
  obtain v3 where v3: "as_str ''username'' u = Inr v3"
    using as_str_ok [OF u(2)] by blast
  obtain v4 where v4: "as_opt_str ''display_name'' (map_of s ''display_name'') = Inr v4"
    using assms as_opt_str_ok by (fastforce simp: server_kwargs_ok_def)
  obtain v5 where v5: "as_opt_int ''created_at'' (map_of s ''created_at'') = Inr v5"
    using assms as_opt_int_ok by (fastforce simp: server_kwargs_ok_def)
  have "list_all (\<lambda>k. k \<in> set server_fields) (map fst s)"
    using assms by (simp add: server_kwargs_ok_def)
  then show ?thesis
    by (simp add: Server_init_def n a u v1 v2 v3 v4 v5)
qed

lemma parse_server_no_interfaces:
  assumes "server_kwargs_ok s"
    and "map_of s ''interfaces'' = None \<or> map_of s ''interfaces'' = Some (JList [])"
  shows "\<exists>srv. WyronClient_parse_server s = Inr srv \<and> interfaces srv = []"
  using assms(2) Server_init_ok [OF assms(1), of "[]"]
  by (auto simp: WyronClient_parse_server_def)

lemma parse_server_interface_list:
  assumes "server_kwargs_ok s"
    and "map_of s ''interfaces'' = Some (JList xs)"
    and "list_all interface_kwargs_ok xs"
  shows "\<exists>srv. WyronClient_parse_server s = Inr srv
           \<and> length (interfaces srv) = length xs
           \<and> (\<forall>n < length xs. WireGuardInterface_init (xs ! n) = Inr (interfaces srv ! n))"
proof -
  have "list_all (\<lambda>x. \<exists>y. WireGuardInterface_init x = Inr y) xs"
    using assms(3) WireGuardInterface_init_ok by (simp add: list_all_iff)
  then obtain ifaces where i: "map_err WireGuardInterface_init xs = Inr ifaces"
    using map_err_ok by blast
  obtain srv where srv: "Server_init s ifaces = Inr srv" "interfaces srv = ifaces"
    using Server_init_ok [OF assms(1)] by blast
  have "WyronClient_parse_server s = Inr srv"
    by (simp add: WyronClient_parse_server_def assms(2) i srv(1))
  then show ?thesis
    using map_err_Inr [OF i] srv(2) by simp
qed

text \<open>
  C9. Parsing a server representation (its fields other than \<open>interfaces\<close> being a
  server's) whose \<open>interfaces\<close> key is absent, or holds the empty list, returns a
  \<open>Server\<close> whose interface list is empty, and does not raise. A representation with a
  list of \<open>n\<close> interface entries returns a \<open>Server\<close> with \<open>n\<close> interfaces, the
  \<open>k\<close>-th of which is the \<open>k\<close>-th entry parsed. The gRPC parser likewise copies the
  message's interfaces one for one, in order.
\<close>

theorem parse_server_interfaces:
  "(server_kwargs_ok s \<longrightarrow>
     ((map_of s ''interfaces'' = None \<or> map_of s ''interfaces'' = Some (JList [])) \<longrightarrow>
        (\<exists>srv. WyronClient_parse_server s = Inr srv \<and> interfaces srv = []))
     \<and> (\<forall>xs. map_of s ''interfaces'' = Some (JList xs) \<and> list_all interface_kwargs_ok xs \<longrightarrow>
        (\<exists>srv. WyronClient_parse_server s = Inr srv
           \<and> length (interfaces srv) = length xs
           \<and> (\<forall>n < length xs. WireGuardInterface_init (xs ! n) = Inr (interfaces srv ! n)))))
   \<and> length (interfaces (WyronGrpcClient_parse_server m)) = length (ServerMessage.interfaces m)
   \<and> (\<forall>n < length (ServerMessage.interfaces m).
        interfaces (WyronGrpcClient_parse_server m) ! n
          = copy_interface (ServerMessage.interfaces m ! n))"
proof (intro conjI impI allI)
  assume ok: "server_kwargs_ok s"
  show "\<exists>srv. WyronClient_parse_server s = Inr srv \<and> interfaces srv = []"
    if "map_of s ''interfaces'' = None \<or> map_of s ''interfaces'' = Some (JList [])"
    using parse_server_no_interfaces [OF ok that] .
  show "\<exists>srv. WyronClient_parse_server s = Inr srv
           \<and> length (interfaces srv) = length xs
           \<and> (\<forall>n < length xs. WireGuardInterface_init (xs ! n) = Inr (interfaces srv ! n))"
    if "map_of s ''interfaces'' = Some (JList xs) \<and> list_all interface_kwargs_ok xs" for xs
    using parse_server_interface_list [OF ok, of xs] that by simp
next
  show "length (interfaces (WyronGrpcClient_parse_server m)) = length (ServerMessage.interfaces m)"
    by (simp add: WyronGrpcClient_parse_server_def)
next
  fix n
  assume "n < length (ServerMessage.interfaces m)"
  then show "interfaces (WyronGrpcClient_parse_server m) ! n
          = copy_interface (ServerMessage.interfaces m ! n)"
    by (simp add: WyronGrpcClient_parse_server_def)
qed

lemma example_server_json_ok: "server_kwargs_ok example_server_json"
  by (simp add: server_kwargs_ok_def example_server_json_def server_fields_def)

lemma example_server_json_ok2:
  "server_kwargs_ok (example_server_json @ [(''interfaces'', v)])"
  by (simp add: server_kwargs_ok_def example_server_json_def server_fields_def)

theorem parse_server_interfaces_witness:
  "(\<exists>srv. WyronClient_parse_server example_server_json = Inr srv \<and> interfaces srv = [])
   \<and> (\<exists>srv. WyronClient_parse_server (example_server_json @ [(''interfaces'', JList [])]) = Inr srv
         \<and> interfaces srv = [])
   \<and> (\<exists>srv. WyronClient_parse_server
           (example_server_json @ [(''interfaces'', JList [example_wg0_json, example_wg1_json])])
         = Inr srv
         \<and> length (interfaces srv) = 2
         \<and> WireGuardInterface_init example_wg0_json = Inr (interfaces srv ! 0)
         \<and> WireGuardInterface_init example_wg1_json = Inr (interfaces srv ! 1))"
proof -
  let ?s1 = "example_server_json @ [(''interfaces'', JList [])]"
  let ?xs = "[example_wg0_json, example_wg1_json]"
  let ?s2 = "example_server_json @ [(''interfaces'', JList ?xs)]"
  have a: "\<exists>srv. WyronClient_parse_server example_server_json = Inr srv \<and> interfaces srv = []"
    using parse_server_interfaces [of example_server_json, THEN conjunct1, rule_format,
        THEN conjunct1, rule_format] example_server_json_ok
    by (simp add: example_server_json_def)
  have b: "\<exists>srv. WyronClient_parse_server ?s1 = Inr srv \<and> interfaces srv = []"
    using parse_server_interfaces [of ?s1, THEN conjunct1, rule_format,
        THEN conjunct1, rule_format] example_server_json_ok2
    by (simp add: example_server_json_def)
  have m: "map_of ?s2 ''interfaces'' = Some (JList ?xs)"
    by (simp add: example_server_json_def)
  have k: "list_all interface_kwargs_ok ?xs"
    by (simp add: example_wg0_json_def example_wg1_json_def interface_fields_def)
  obtain srv where srv: "WyronClient_parse_server ?s2 = Inr srv"
      "length (interfaces srv) = length ?xs"
      "\<forall>n < length ?xs. WireGuardInterface_init (?xs ! n) = Inr (interfaces srv ! n)"
    using parse_server_interfaces [of ?s2, THEN conjunct1, rule_format, THEN conjunct2,
        rule_format, of ?xs] example_server_json_ok2 m k
    by blast
  have "WireGuardInterface_init example_wg0_json = Inr (interfaces srv ! 0)"
    using srv(3) [rule_format, of 0] by simp
  moreover have "WireGuardInterface_init example_wg1_json = Inr (interfaces srv ! 1)"
    using srv(3) [rule_format, of 1] by simp
  ultimately have c: "\<exists>srv. WyronClient_parse_server ?s2 = Inr srv
         \<and> length (interfaces srv) = 2
         \<and> WireGuardInterface_init example_wg0_json = Inr (interfaces srv ! 0)
         \<and> WireGuardInterface_init example_wg1_json = Inr (interfaces srv ! 1)"
    using srv(1,2) by (intro exI [of _ srv]) simp
  show ?thesis using a b c by blast
qed

section \<open>Record parsers: REST against gRPC\<close>

lemma init_json_of_interface:
  "WireGuardInterface_init (json_of_interface i) = Inr (copy_interface i)"
  by (simp add: json_of_interface_def copy_interface_def interface_fields_def)

lemma map_err_map:
  "(\<And>x. f (g x) = Inr (h x)) \<Longrightarrow> map_err f (map g xs) = Inr (map h xs)"
  by (induction xs) simp_all

lemma grpc_display_name_never_None:
  "Server.display_name (WyronGrpcClient_parse_server m) \<noteq> None"
  by (simp add: WyronGrpcClient_parse_server_def)

text \<open>
  C5, as stated, fails. The REST parser leaves a field that the JSON object omits at the
  dataclass default \<open>None\<close>; the gRPC parser copies message fields, which are never
  \<open>None\<close>. For a server with no display name, no creation time and no interfaces, the
  REST object that omits these keys parses to a record with \<open>display_name = None\<close> and
  \<open>created_at = None\<close>, and the gRPC message, on which these fields read as the empty
  string and 0, parses to a record with \<open>display_name = ""\<close> and \<open>created_at = 0\<close>.
\<close>

theorem parse_server_omitted_fields_differ:
  "WyronClient_parse_server example_server_json
     = Inr \<lparr>Server.name = ''srv1'', address = ''192.0.2.1'', username = ''admin'',
            display_name = None, created_at = None, interfaces = []\<rparr>
   \<and> WyronGrpcClient_parse_server example_server_message
     = \<lparr>Server.name = ''srv1'', address = ''192.0.2.1'', username = ''admin'',
        display_name = Some '''', created_at = Some 0, interfaces = []\<rparr>
   \<and> WyronClient_parse_server example_server_json
     \<noteq> Inr (WyronGrpcClient_parse_server example_server_message)"
  by (simp add: WyronClient_parse_server_def Server_init_def server_fields_def
      example_server_json_def WyronGrpcClient_parse_server_def example_server_message_def)

text \<open>
  C5, amended. When the REST object carries every field of the gRPC message under the
  dataclass's field name (the message's \<open>id\<close> as \<open>name\<close>, every optional field present
  with the message's value, and every interface entry likewise with its eight fields),
  \<open>WyronClient._parse_server\<close> on the object and \<open>WyronGrpcClient._parse_server\<close> on the
  message return the same \<open>Server\<close>: the same name, address, username, display name and
  creation time, and the same interfaces field by field, in the same order.
\<close>

theorem parse_server_agree:
  "WyronClient_parse_server (json_of_server m) = Inr (WyronGrpcClient_parse_server m)"
proof -
  have i: "map_err WireGuardInterface_init (map json_of_interface (ServerMessage.interfaces m))
             = Inr (map copy_interface (ServerMessage.interfaces m))"
    by (rule map_err_map) (rule init_json_of_interface)
  have g: "map_of (json_of_server m) ''interfaces''
             = Some (JList (map json_of_interface (ServerMessage.interfaces m)))"
    by (simp add: json_of_server_def)
  have s: "Server_init (json_of_server m) ifaces
             = Inr \<lparr>Server.name = id' m, address = ServerMessage.address m,
                    username = ServerMessage.username m,
                    display_name = Some (ServerMessage.display_name m),
                    created_at = Some (ServerMessage.created_at m),
                    interfaces = ifaces\<rparr>" for ifaces
    by (simp add: Server_init_def json_of_server_def server_fields_def)
  show ?thesis
    by (simp add: WyronClient_parse_server_def g i s WyronGrpcClient_parse_server_def)
qed

theorem parse_server_agree_witness:
  "WyronClient_parse_server
     [(''name'', JStr ''srv1''), (''address'', JStr ''192.0.2.1''), (''username'', JStr ''admin''),
      (''display_name'', JStr ''''), (''created_at'', JInt 0),
      (''interfaces'', JList [JObject
         [(''name'', JStr ''wg0''), (''display_name'', JStr ''office''),
          (''subnet'', JStr ''10.0.0.0/24''), (''endpoint'', JStr ''vpn.example.com''),
          (''dns'', JStr ''1.1.1.1''), (''port'', JInt 51820),
          (''created_at'', JInt 1700000000), (''public_key'', JStr ''PUB'')]])]
   = Inr \<lparr>Server.name = ''srv1'', address = ''192.0.2.1'', username = ''admin'',
          display_name = Some '''', created_at = Some 0,
          interfaces = [\<lparr>WireGuardInterface.name = ''wg0'', display_name = Some ''office'',
            subnet = Some ''10.0.0.0/24'', endpoint = Some ''vpn.example.com'',
            dns = Some ''1.1.1.1'', port = Some 51820, created_at = Some 1700000000,
            public_key = Some ''PUB''\<rparr>]\<rparr>"
  using parse_server_agree
    [of "example_server_message\<lparr>ServerMessage.interfaces := [example_interface_message]\<rparr>"]
  by (simp add: json_of_server_def json_of_interface_def WyronGrpcClient_parse_server_def
      copy_interface_def example_server_message_def example_interface_message_def)

section \<open>Re-authentication\<close>

lemma send_session:
  "send net self c = (r, self1) \<Longrightarrow> session self1 = session self @ [c]"
  by (auto simp: send_def)

lemma WyronClient_login_session:
  "WyronClient_login net self = (r, self') \<Longrightarrow> session self' = session self @ [login_call self]"
  by (auto simp: WyronClient_login_def send_def split: sum.splits if_splits json.splits)

lemma made_append: "session after = session before @ cs \<Longrightarrow> made before after = cs"
  by (simp add: made_def)

lemma request_transport_failure:
  assumes "send net self (request_call self method path kwargs) = (Inl e, self1)"
  shows "WyronClient_request net self method path kwargs = (Inl e, self1)"
    and "made self self1 = [request_call self method path kwargs]"
  using assms send_session [OF assms]
  by (simp_all add: WyronClient_request_def made_append)

lemma request_other_status:
  assumes "send net self (request_call self method path kwargs) = (Inr response, self1)"
    and "status_code response \<noteq> 401"
  shows "WyronClient_request net self method path kwargs = (finish response, self1)"
    and "made self self1 = [request_call self method path kwargs]"
  using assms send_session [OF assms(1)]
  by (simp_all add: WyronClient_request_def made_append)

lemma request_login_fails:
  assumes "send net self (request_call self method path kwargs) = (Inr response, self1)"
    and "status_code response = 401"
    and "WyronClient_login net self1 = (Inl e, self2)"
  shows "WyronClient_request net self method path kwargs = (Inl e, self2)"
    and "made self self2 = [request_call self method path kwargs, login_call self1]"
  using assms send_session [OF assms(1)] WyronClient_login_session [OF assms(3)]
  by (simp_all add: WyronClient_request_def made_append)

lemma request_retried:
  assumes "send net self (request_call self method path kwargs) = (Inr response, self1)"
    and "status_code response = 401"
    and "WyronClient_login net self1 = (Inr u, self2)"
    and "send net self2 (request_call self2 method path kwargs) = (r2, self3)"
  shows "WyronClient_request net self method path kwargs = (bind_err r2 finish, self3)"
    and "made self self3 = [request_call self method path kwargs, login_call self1,
           request_call self2 method path kwargs]"
proof -
  show "WyronClient_request net self method path kwargs = (bind_err r2 finish, self3)"
    using assms by (cases r2) (simp_all add: WyronClient_request_def)
  have "session self3 = session self @ [request_call self method path kwargs, login_call self1,
           request_call self2 method path kwargs]"
    using send_session [OF assms(1)] WyronClient_login_session [OF assms(3)]
      send_session [OF assms(4)] by simp
  then show "made self self3 = [request_call self method path kwargs, login_call self1,
           request_call self2 method path kwargs]"
    by (rule made_append)
qed

lemma finish_401: "status_code r = 401 \<Longrightarrow> finish r = Inl (HTTPStatusError 401)"
  by (simp add: finish_def raise_for_status_def is_success_def)

lemma attempts_simps:
  "attempts [request_call a m p k] = 1"
  "attempts [request_call a m p k, login_call b] = 1"
  "attempts [request_call a m p k, login_call b, request_call c m' p' k'] = 2"
  "logins [request_call a m p k] = 0"
  "logins [request_call a m p k, login_call b] = 1"
  "logins [request_call a m p k, login_call b, request_call c m' p' k'] = 1"
  by (simp_all add: attempts_def logins_def request_call_def login_call_def)

lemma stub_call_calls:
  "stub_call ch self func request = (r, self1) \<Longrightarrow>
   calls self1 = calls self
     @ [StubCall func request (WyronGrpcClient_metadata self) (WyronGrpcClient.timeout self)]"
  by (auto simp: stub_call_def Let_def)

lemma WyronGrpcClient_login_calls:
  "WyronGrpcClient_login ch self = (r, self') \<Longrightarrow>
   calls self' = calls self
     @ [LoginCall (WyronGrpcClient.username self) (WyronGrpcClient.password self)
          (WyronGrpcClient.timeout self)]"
  by (auto simp: WyronGrpcClient_login_def Let_def split: sum.splits)

lemma grpc_made_append: "calls after = calls before @ cs \<Longrightarrow> grpc_made before after = cs"
  by (simp add: grpc_made_def)

lemma call_succeeds:
  assumes "stub_call ch self func request = (Inr v, self1)"
  shows "WyronGrpcClient_call ch self func request = (Inr v, self1)"
    and "grpc_made self self1
           = [StubCall func request (WyronGrpcClient_metadata self) (WyronGrpcClient.timeout self)]"
  using assms stub_call_calls [OF assms]
  by (simp_all add: WyronGrpcClient_call_def grpc_made_append)

lemma call_other_failure:
  assumes "stub_call ch self func request = (Inl e, self1)"
    and "e \<noteq> RpcError UNAUTHENTICATED"
  shows "WyronGrpcClient_call ch self func request = (Inl e, self1)"
    and "grpc_made self self1
           = [StubCall func request (WyronGrpcClient_metadata self) (WyronGrpcClient.timeout self)]"
  using assms stub_call_calls [OF assms(1)]
  by (simp_all add: WyronGrpcClient_call_def grpc_made_append)

lemma call_login_fails:
  assumes "stub_call ch self func request = (Inl (RpcError UNAUTHENTICATED), self1)"
    and "WyronGrpcClient_login ch self1 = (Inl e, self2)"
  shows "WyronGrpcClient_call ch self func request = (Inl e, self2)"
    and "grpc_made self self2
           = [StubCall func request (WyronGrpcClient_metadata self) (WyronGrpcClient.timeout self),
              LoginCall (WyronGrpcClient.username self1) (WyronGrpcClient.password self1)
                (WyronGrpcClient.timeout self1)]"
  using assms stub_call_calls [OF assms(1)] WyronGrpcClient_login_calls [OF assms(2)]
  by (simp_all add: WyronGrpcClient_call_def grpc_made_append)

lemma call_retried:
  assumes "stub_call ch self func request = (Inl (RpcError UNAUTHENTICATED), self1)"
    and "WyronGrpcClient_login ch self1 = (Inr u, self2)"
    and "stub_call ch self2 func request = (r2, self3)"
  shows "WyronGrpcClient_call ch self func request = (r2, self3)"
    and "grpc_made self self3
           = [StubCall func request (WyronGrpcClient_metadata self) (WyronGrpcClient.timeout self),
              LoginCall (WyronGrpcClient.username self1) (WyronGrpcClient.password self1)
                (WyronGrpcClient.timeout self1),
              StubCall func request (WyronGrpcClient_metadata self2)
                (WyronGrpcClient.timeout self2)]"
proof -
  show "WyronGrpcClient_call ch self func request = (r2, self3)"
    using assms by (simp add: WyronGrpcClient_call_def)
  have "calls self3 = calls self
     @ [StubCall func request (WyronGrpcClient_metadata self) (WyronGrpcClient.timeout self),
        LoginCall (WyronGrpcClient.username self1) (WyronGrpcClient.password self1)
          (WyronGrpcClient.timeout self1),
        StubCall func request (WyronGrpcClient_metadata self2) (WyronGrpcClient.timeout self2)]"
    using stub_call_calls [OF assms(1)] WyronGrpcClient_login_calls [OF assms(2)]
      stub_call_calls [OF assms(3)] by simp
  then show "grpc_made self self3
           = [StubCall func request (WyronGrpcClient_metadata self) (WyronGrpcClient.timeout self),
              LoginCall (WyronGrpcClient.username self1) (WyronGrpcClient.password self1)
                (WyronGrpcClient.timeout self1),
              StubCall func request (WyronGrpcClient_metadata self2)
                (WyronGrpcClient.timeout self2)]"
    by (rule grpc_made_append)
qed

text \<open>
  C3, as stated, fails: after an authentication failure the call is retried only when
  the new login succeeds. Against a service that answers 401 to everything, the login
  included, \<open>_request\<close> sends the request once, posts the login once, and raises the
  login's \<open>HTTPStatusError\<close>; the request is not sent a second time. The gRPC client's
  \<open>_call\<close> does the same when \<open>Login\<close> raises.
\<close>

theorem no_retry_when_login_fails:
  "fst (WyronClient_request rejects_everything example_client ''GET'' ''/servers'' [])
     = Inl (HTTPStatusError 401)
   \<and> session (snd (WyronClient_request rejects_everything example_client ''GET'' ''/servers'' []))
     = [request_call example_client ''GET'' ''/servers'' [], login_call example_client]
   \<and> attempts (session (snd
        (WyronClient_request rejects_everything example_client ''GET'' ''/servers'' []))) = 1
   \<and> fst (WyronGrpcClient_call grpc_rejects_everything example_grpc_client ''ServerService.List'' '''')
     = Inl (RpcError UNAUTHENTICATED)
   \<and> grpc_attempts (calls (snd
        (WyronGrpcClient_call grpc_rejects_everything example_grpc_client ''ServerService.List'' '''')))
     = 1"
proof -
  have r: "WyronClient_request rejects_everything example_client ''GET'' ''/servers'' []
      = (Inl (HTTPStatusError 401),
         example_client\<lparr>session := [request_call example_client ''GET'' ''/servers'' [],
           login_call example_client]\<rparr>)"
    by (simp add: WyronClient_request_def WyronClient_login_def send_def rejects_everything_def
        raise_for_status_def is_success_def example_client_def login_call_def)
  have g: "WyronGrpcClient_call grpc_rejects_everything example_grpc_client ''ServerService.List'' ''''
      = (Inl (RpcError UNAUTHENTICATED),
         example_grpc_client\<lparr>calls :=
           [StubCall ''ServerService.List'' '''' [(''authorization'', ''Bearer T0'')] 15,
            LoginCall ''admin'' ''secret'' 15]\<rparr>)"
    by (simp add: WyronGrpcClient_call_def WyronGrpcClient_login_def stub_call_def Let_def
        grpc_rejects_everything_def example_grpc_client_def WyronGrpcClient_metadata_def)
  show ?thesis
    unfolding r g by (simp add: attempts_simps grpc_attempts_def)
qed

text \<open>
  C3, amended. Every operation of the REST client goes through \<open>_request\<close> and every
  operation of the gRPC client through \<open>_call\<close>. A first attempt that does not end in an
  authentication failure (a raised transport failure such as a timeout, a response with a
  status other than 401, an \<open>RpcError\<close> with a code other than \<open>UNAUTHENTICATED\<close>, or a
  success) is the only call made: no login, no second attempt, and its failure is raised
  as it is. After an authentication failure (HTTP 401, gRPC \<open>UNAUTHENTICATED\<close>) \<open>login\<close>
  runs exactly once. If that login succeeds, the original call is made exactly once more,
  with the new token, and its outcome is the outcome of the operation: in particular a
  second authentication failure is raised to the caller. If that login raises, its
  exception is raised to the caller and the original call is not made again.
\<close>

theorem reauthentication_policy:
  "(\<forall>e self1. send net self (request_call self method path kwargs) = (Inl e, self1) \<longrightarrow>
      WyronClient_request net self method path kwargs = (Inl e, self1)
      \<and> made self self1 = [request_call self method path kwargs])
   \<and> (\<forall>response self1.
        send net self (request_call self method path kwargs) = (Inr response, self1)
        \<and> status_code response \<noteq> 401 \<longrightarrow>
      WyronClient_request net self method path kwargs = (finish response, self1)
      \<and> made self self1 = [request_call self method path kwargs])
   \<and> (\<forall>response self1 e self2.
        send net self (request_call self method path kwargs) = (Inr response, self1)
        \<and> status_code response = 401
        \<and> WyronClient_login net self1 = (Inl e, self2) \<longrightarrow>
      WyronClient_request net self method path kwargs = (Inl e, self2)
      \<and> made self self2 = [request_call self method path kwargs, login_call self1]
      \<and> attempts (made self self2) = 1 \<and> logins (made self self2) = 1)
   \<and> (\<forall>response self1 u self2 r2 self3.
        send net self (request_call self method path kwargs) = (Inr response, self1)
        \<and> status_code response = 401
        \<and> WyronClient_login net self1 = (Inr u, self2)
        \<and> send net self2 (request_call self2 method path kwargs) = (r2, self3) \<longrightarrow>
      WyronClient_request net self method path kwargs = (bind_err r2 finish, self3)
      \<and> made self self3 = [request_call self method path kwargs, login_call self1,
           request_call self2 method path kwargs]
      \<and> attempts (made self self3) = 2 \<and> logins (made self self3) = 1
      \<and> (\<forall>response2. r2 = Inr response2 \<and> status_code response2 = 401 \<longrightarrow>
            fst (WyronClient_request net self method path kwargs) = Inl (HTTPStatusError 401)))
   \<and> (\<forall>v gself1. stub_call ch gself func request = (Inr v, gself1) \<longrightarrow>
      WyronGrpcClient_call ch gself func request = (Inr v, gself1)
      \<and> grpc_attempts (grpc_made gself gself1) = 1 \<and> grpc_logins (grpc_made gself gself1) = 0)
   \<and> (\<forall>e gself1. stub_call ch gself func request = (Inl e, gself1)
        \<and> e \<noteq> RpcError UNAUTHENTICATED \<longrightarrow>
      WyronGrpcClient_call ch gself func request = (Inl e, gself1)
      \<and> grpc_attempts (grpc_made gself gself1) = 1 \<and> grpc_logins (grpc_made gself gself1) = 0)
   \<and> (\<forall>gself1 e gself2.
        stub_call ch gself func request = (Inl (RpcError UNAUTHENTICATED), gself1)
        \<and> WyronGrpcClient_login ch gself1 = (Inl e, gself2) \<longrightarrow>
      WyronGrpcClient_call ch gself func request = (Inl e, gself2)
      \<and> grpc_attempts (grpc_made gself gself2) = 1 \<and> grpc_logins (grpc_made gself gself2) = 1)
   \<and> (\<forall>gself1 u gself2 r2 gself3.
        stub_call ch gself func request = (Inl (RpcError UNAUTHENTICATED), gself1)
        \<and> WyronGrpcClient_login ch gself1 = (Inr u, gself2)
        \<and> stub_call ch gself2 func request = (r2, gself3) \<longrightarrow>
      WyronGrpcClient_call ch gself func request = (r2, gself3)
      \<and> grpc_attempts (grpc_made gself gself3) = 2 \<and> grpc_logins (grpc_made gself gself3) = 1)"
proof (intro conjI allI impI)
  fix e self1
  assume h: "send net self (request_call self method path kwargs) = (Inl e, self1)"
  show "WyronClient_request net self method path kwargs = (Inl e, self1)"
    using request_transport_failure(1) [OF h] .
  show "made self self1 = [request_call self method path kwargs]"
    using request_transport_failure(2) [OF h] .
next
  fix response self1
  assume h: "send net self (request_call self method path kwargs) = (Inr response, self1)
        \<and> status_code response \<noteq> 401"
  show "WyronClient_request net self method path kwargs = (finish response, self1)"
    using request_other_status(1) [of net self "method" "path" kwargs response self1] h by simp
  show "made self self1 = [request_call self method path kwargs]"
    using request_other_status(2) [of net self "method" "path" kwargs response self1] h by simp
next
  fix response self1 e self2
  assume h: "send net self (request_call self method path kwargs) = (Inr response, self1)
        \<and> status_code response = 401
        \<and> WyronClient_login net self1 = (Inl e, self2)"
  show "WyronClient_request net self method path kwargs = (Inl e, self2)"
    using request_login_fails(1) [of net self "method" "path" kwargs response self1 e self2] h
    by simp
  show m: "made self self2 = [request_call self method path kwargs, login_call self1]"
    using request_login_fails(2) [of net self "method" "path" kwargs response self1 e self2] h
    by simp
  show "attempts (made self self2) = 1" unfolding m by (rule attempts_simps)
  show "logins (made self self2) = 1" unfolding m by (rule attempts_simps)
next
  fix response self1 u self2 r2 self3
  assume h: "send net self (request_call self method path kwargs) = (Inr response, self1)
        \<and> status_code response = 401
        \<and> WyronClient_login net self1 = (Inr u, self2)
        \<and> send net self2 (request_call self2 method path kwargs) = (r2, self3)"
  show r: "WyronClient_request net self method path kwargs = (bind_err r2 finish, self3)"
    using request_retried(1) [of net self "method" "path" kwargs response self1 u self2 r2 self3] h
    by simp
  show m: "made self self3 = [request_call self method path kwargs, login_call self1,
           request_call self2 method path kwargs]"
    using request_retried(2) [of net self "method" "path" kwargs response self1 u self2 r2 self3] h
    by simp
  show "attempts (made self self3) = 2" unfolding m by (rule attempts_simps)
  show "logins (made self self3) = 1" unfolding m by (rule attempts_simps)
  show "fst (WyronClient_request net self method path kwargs) = Inl (HTTPStatusError 401)"
    if "r2 = Inr response2 \<and> status_code response2 = 401" for response2
    using that r by (simp add: finish_401)
next
  fix v gself1
  assume h: "stub_call ch gself func request = (Inr v, gself1)"
  show "WyronGrpcClient_call ch gself func request = (Inr v, gself1)"
    using call_succeeds(1) [OF h] .
  show "grpc_attempts (grpc_made gself gself1) = 1"
    unfolding call_succeeds(2) [OF h] by (simp add: grpc_attempts_def)
  show "grpc_logins (grpc_made gself gself1) = 0"
    unfolding call_succeeds(2) [OF h] by (simp add: grpc_logins_def)
next
  fix e gself1
  assume h: "stub_call ch gself func request = (Inl e, gself1) \<and> e \<noteq> RpcError UNAUTHENTICATED"
  then have a: "stub_call ch gself func request = (Inl e, gself1)"
    and b: "e \<noteq> RpcError UNAUTHENTICATED" by simp_all
  show "WyronGrpcClient_call ch gself func request = (Inl e, gself1)"
    using call_other_failure(1) [OF a b] .
  show "grpc_attempts (grpc_made gself gself1) = 1"
    unfolding call_other_failure(2) [OF a b] by (simp add: grpc_attempts_def)
  show "grpc_logins (grpc_made gself gself1) = 0"
    unfolding call_other_failure(2) [OF a b] by (simp add: grpc_logins_def)
next
  fix gself1 e gself2
  assume h: "stub_call ch gself func request = (Inl (RpcError UNAUTHENTICATED), gself1)
        \<and> WyronGrpcClient_login ch gself1 = (Inl e, gself2)"
  then have a: "stub_call ch gself func request = (Inl (RpcError UNAUTHENTICATED), gself1)"
    and b: "WyronGrpcClient_login ch gself1 = (Inl e, gself2)" by simp_all
  show "WyronGrpcClient_call ch gself func request = (Inl e, gself2)"
    using call_login_fails(1) [OF a b] .
  show "grpc_attempts (grpc_made gself gself2) = 1"
    unfolding call_login_fails(2) [OF a b] by (simp add: grpc_attempts_def)
  show "grpc_logins (grpc_made gself gself2) = 1"
    unfolding call_login_fails(2) [OF a b] by (simp add: grpc_logins_def)
next
  fix gself1 u gself2 r2 gself3
  assume h: "stub_call ch gself func request = (Inl (RpcError UNAUTHENTICATED), gself1)
        \<and> WyronGrpcClient_login ch gself1 = (Inr u, gself2)
        \<and> stub_call ch gself2 func request = (r2, gself3)"
  then have a: "stub_call ch gself func request = (Inl (RpcError UNAUTHENTICATED), gself1)"
    and b: "WyronGrpcClient_login ch gself1 = (Inr u, gself2)"
    and c: "stub_call ch gself2 func request = (r2, gself3)" by simp_all
  show "WyronGrpcClient_call ch gself func request = (r2, gself3)"
    using call_retried(1) [OF a b c] .
  show "grpc_attempts (grpc_made gself gself3) = 2"
    unfolding call_retried(2) [OF a b c] by (simp add: grpc_attempts_def)
  show "grpc_logins (grpc_made gself gself3) = 1"
    unfolding call_retried(2) [OF a b c] by (simp add: grpc_logins_def)
qed


lemmas rest_eval =
  send_def request_call_def login_call_def WyronClient_headers_def WyronClient_login_def
  raise_for_status_def is_success_def response_json_def finish_def example_client_def

lemmas grpc_eval =
  stub_call_def WyronGrpcClient_login_def WyronGrpcClient_metadata_def Let_def
  example_grpc_client_def

theorem reauthentication_policy_witness:
  "fst (WyronClient_request times_out example_client ''GET'' ''/servers'' [])
     = Inl (TransportError ''timeout'')
   \<and> made example_client (snd (WyronClient_request times_out example_client ''GET'' ''/servers'' []))
     = [request_call example_client ''GET'' ''/servers'' []]
   \<and> fst (WyronClient_request server_error example_client ''GET'' ''/servers'' [])
     = Inl (HTTPStatusError 503)
   \<and> made example_client (snd (WyronClient_request server_error example_client ''GET'' ''/servers'' []))
     = [request_call example_client ''GET'' ''/servers'' []]
   \<and> fst (WyronClient_request rejects_everything example_client ''GET'' ''/servers'' [])
     = Inl (HTTPStatusError 401)
   \<and> attempts (made example_client
        (snd (WyronClient_request rejects_everything example_client ''GET'' ''/servers'' []))) = 1
   \<and> fst (WyronClient_request token_expired example_client ''GET'' ''/servers'' [])
     = Inr (JObject [(''data'', JList [])])
   \<and> attempts (made example_client
        (snd (WyronClient_request token_expired example_client ''GET'' ''/servers'' []))) = 2
   \<and> logins (made example_client
        (snd (WyronClient_request token_expired example_client ''GET'' ''/servers'' []))) = 1
   \<and> fst (WyronClient_request refuses_tokens example_client ''GET'' ''/servers'' [])
     = Inl (HTTPStatusError 401)
   \<and> attempts (made example_client
        (snd (WyronClient_request refuses_tokens example_client ''GET'' ''/servers'' []))) = 2
   \<and> logins (made example_client
        (snd (WyronClient_request refuses_tokens example_client ''GET'' ''/servers'' []))) = 1
   \<and> fst (WyronGrpcClient_call grpc_token_expired
        (example_grpc_client\<lparr>WyronGrpcClient.token := Some ''T1''\<rparr>) ''ServerService.List'' '''')
     = Inr ''ok''
   \<and> fst (WyronGrpcClient_call grpc_times_out example_grpc_client ''ServerService.List'' '''')
     = Inl (RpcError DEADLINE_EXCEEDED)
   \<and> grpc_attempts (grpc_made example_grpc_client
        (snd (WyronGrpcClient_call grpc_times_out example_grpc_client ''ServerService.List'' '''')))
     = 1
   \<and> fst (WyronGrpcClient_call grpc_rejects_everything example_grpc_client ''ServerService.List'' '''')
     = Inl (RpcError UNAUTHENTICATED)
   \<and> grpc_attempts (grpc_made example_grpc_client
        (snd (WyronGrpcClient_call grpc_rejects_everything example_grpc_client
           ''ServerService.List'' ''''))) = 1
   \<and> fst (WyronGrpcClient_call grpc_token_expired example_grpc_client ''ServerService.List'' '''')
     = Inr ''ok''
   \<and> grpc_attempts (grpc_made example_grpc_client
        (snd (WyronGrpcClient_call grpc_token_expired example_grpc_client
           ''ServerService.List'' ''''))) = 2
   \<and> fst (WyronGrpcClient_call grpc_refuses_tokens example_grpc_client ''ServerService.List'' '''')
     = Inl (RpcError UNAUTHENTICATED)
   \<and> grpc_logins (grpc_made example_grpc_client
        (snd (WyronGrpcClient_call grpc_refuses_tokens example_grpc_client
           ''ServerService.List'' ''''))) = 1"
proof -
  let ?C = example_client
  let ?c1 = "request_call ?C ''GET'' ''/servers'' []"
  let ?G = example_grpc_client
  let ?unauth = "\<lparr>status_code = 401, body = Some (JObject [])\<rparr>"
  note P = reauthentication_policy
  \<comment> \<open>a timeout\<close>
  have t1: "send times_out ?C ?c1 = (Inl (TransportError ''timeout''), snd (send times_out ?C ?c1))"
    by (simp add: send_def times_out_def)
  have a1: "WyronClient_request times_out ?C ''GET'' ''/servers'' []
              = (Inl (TransportError ''timeout''), snd (send times_out ?C ?c1))
            \<and> made ?C (snd (send times_out ?C ?c1)) = [?c1]"
    using P [of times_out ?C "''GET''" "''/servers''" "[]", THEN conjunct1, rule_format, OF t1] .
  \<comment> \<open>a status other than 401\<close>
  have t2: "send server_error ?C ?c1
              = (Inr \<lparr>status_code = 503, body = None\<rparr>, snd (send server_error ?C ?c1))
            \<and> status_code \<lparr>status_code = 503, body = None\<rparr> \<noteq> 401"
    by (simp add: send_def server_error_def)
  have a2: "WyronClient_request server_error ?C ''GET'' ''/servers'' []
              = (finish \<lparr>status_code = 503, body = None\<rparr>, snd (send server_error ?C ?c1))
            \<and> made ?C (snd (send server_error ?C ?c1)) = [?c1]"
    using P [of server_error ?C "''GET''" "''/servers''" "[]", THEN conjunct2, THEN conjunct1,
        rule_format, OF t2] .
  have f2: "finish \<lparr>status_code = 503, body = None\<rparr> = Inl (HTTPStatusError 503)"
    by (simp add: finish_def raise_for_status_def is_success_def)
  \<comment> \<open>401, and the login fails\<close>
  let ?r1 = "snd (send rejects_everything ?C ?c1)"
  let ?r2 = "snd (WyronClient_login rejects_everything ?r1)"
  have t3: "send rejects_everything ?C ?c1 = (Inr ?unauth, ?r1)
            \<and> status_code ?unauth = 401
            \<and> WyronClient_login rejects_everything ?r1 = (Inl (HTTPStatusError 401), ?r2)"
    by (simp add: rest_eval rejects_everything_def)
  have a3: "WyronClient_request rejects_everything ?C ''GET'' ''/servers'' []
              = (Inl (HTTPStatusError 401), ?r2)
            \<and> made ?C ?r2 = [?c1, login_call ?r1]
            \<and> attempts (made ?C ?r2) = 1 \<and> logins (made ?C ?r2) = 1"
    using P [of rejects_everything ?C "''GET''" "''/servers''" "[]", THEN conjunct2,
        THEN conjunct2, THEN conjunct1, rule_format, OF t3] .
  \<comment> \<open>401, the login succeeds, the second attempt succeeds\<close>
  let ?e1 = "snd (send token_expired ?C ?c1)"
  let ?e2 = "snd (WyronClient_login token_expired ?e1)"
  let ?e3 = "snd (send token_expired ?e2 (request_call ?e2 ''GET'' ''/servers'' []))"
  let ?ok = "\<lparr>status_code = 200, body = Some (JObject [(''data'', JList [])])\<rparr>"
  have t4: "send token_expired ?C ?c1 = (Inr ?unauth, ?e1)
            \<and> status_code ?unauth = 401
            \<and> WyronClient_login token_expired ?e1 = (Inr (), ?e2)
            \<and> send token_expired ?e2 (request_call ?e2 ''GET'' ''/servers'' []) = (Inr ?ok, ?e3)"
    by (simp add: rest_eval token_expired_def)
  have a4: "WyronClient_request token_expired ?C ''GET'' ''/servers'' []
              = (bind_err (Inr ?ok) finish, ?e3)
            \<and> made ?C ?e3 = [?c1, login_call ?e1, request_call ?e2 ''GET'' ''/servers'' []]
            \<and> attempts (made ?C ?e3) = 2 \<and> logins (made ?C ?e3) = 1
            \<and> (\<forall>response2. (Inr ?ok :: error + Response) = Inr response2 \<and> status_code response2 = 401 \<longrightarrow>
                  fst (WyronClient_request token_expired ?C ''GET'' ''/servers'' [])
                    = Inl (HTTPStatusError 401))"
    using P [of token_expired ?C "''GET''" "''/servers''" "[]", THEN conjunct2,
        THEN conjunct2, THEN conjunct2, THEN conjunct1, rule_format, OF t4] .
  have f4: "bind_err (Inr ?ok) finish = Inr (JObject [(''data'', JList [])])"
    by (simp add: finish_def raise_for_status_def is_success_def response_json_def)
  \<comment> \<open>401, the login succeeds, the second attempt is a 401 again\<close>
  let ?d1 = "snd (send refuses_tokens ?C ?c1)"
  let ?d2 = "snd (WyronClient_login refuses_tokens ?d1)"
  let ?d3 = "snd (send refuses_tokens ?d2 (request_call ?d2 ''GET'' ''/servers'' []))"
  have t5: "send refuses_tokens ?C ?c1 = (Inr ?unauth, ?d1)
            \<and> status_code ?unauth = 401
            \<and> WyronClient_login refuses_tokens ?d1 = (Inr (), ?d2)
            \<and> send refuses_tokens ?d2 (request_call ?d2 ''GET'' ''/servers'' []) = (Inr ?unauth, ?d3)"
    by (simp add: rest_eval refuses_tokens_def)
  have a5: "WyronClient_request refuses_tokens ?C ''GET'' ''/servers'' []
              = (bind_err (Inr ?unauth) finish, ?d3)
            \<and> made ?C ?d3 = [?c1, login_call ?d1, request_call ?d2 ''GET'' ''/servers'' []]
            \<and> attempts (made ?C ?d3) = 2 \<and> logins (made ?C ?d3) = 1
            \<and> (\<forall>response2. (Inr ?unauth :: error + Response) = Inr response2 \<and> status_code response2 = 401 \<longrightarrow>
                  fst (WyronClient_request refuses_tokens ?C ''GET'' ''/servers'' [])
                    = Inl (HTTPStatusError 401))"
    using P [of refuses_tokens ?C "''GET''" "''/servers''" "[]", THEN conjunct2,
        THEN conjunct2, THEN conjunct2, THEN conjunct1, rule_format, OF t5] .
  have f5: "fst (WyronClient_request refuses_tokens ?C ''GET'' ''/servers'' [])
              = Inl (HTTPStatusError 401)"
    using a5 [THEN conjunct2, THEN conjunct2, THEN conjunct2, THEN conjunct2, rule_format,
        of ?unauth]
    by simp
  \<comment> \<open>gRPC: success at once\<close>
  let ?G1 = "?G\<lparr>WyronGrpcClient.token := Some ''T1''\<rparr>"
  let ?gs = "snd (stub_call grpc_token_expired ?G1 ''ServerService.List'' '''')"
  have u1: "stub_call grpc_token_expired ?G1 ''ServerService.List'' '''' = (Inr ''ok'', ?gs)"
    by (simp add: grpc_eval grpc_token_expired_def)
  have b1: "WyronGrpcClient_call grpc_token_expired ?G1 ''ServerService.List'' '''' = (Inr ''ok'', ?gs)
            \<and> grpc_attempts (grpc_made ?G1 ?gs) = 1 \<and> grpc_logins (grpc_made ?G1 ?gs) = 0"
    using P [of _ _ _ _ _ grpc_token_expired ?G1 "''ServerService.List''" "''''",
        THEN conjunct2, THEN conjunct2, THEN conjunct2, THEN conjunct2, THEN conjunct1,
        rule_format, OF u1] .
  \<comment> \<open>gRPC: a failure other than UNAUTHENTICATED\<close>
  let ?gt = "snd (stub_call grpc_times_out ?G ''ServerService.List'' '''')"
  have u2: "stub_call grpc_times_out ?G ''ServerService.List'' ''''
              = (Inl (RpcError DEADLINE_EXCEEDED), ?gt)
            \<and> RpcError DEADLINE_EXCEEDED \<noteq> RpcError UNAUTHENTICATED"
    by (simp add: grpc_eval grpc_times_out_def)
  have b2: "WyronGrpcClient_call grpc_times_out ?G ''ServerService.List'' ''''
              = (Inl (RpcError DEADLINE_EXCEEDED), ?gt)
            \<and> grpc_attempts (grpc_made ?G ?gt) = 1 \<and> grpc_logins (grpc_made ?G ?gt) = 0"
    using P [of _ _ _ _ _ grpc_times_out ?G "''ServerService.List''" "''''",
        THEN conjunct2, THEN conjunct2, THEN conjunct2, THEN conjunct2, THEN conjunct2,
        THEN conjunct1, rule_format, OF u2] .
  \<comment> \<open>gRPC: UNAUTHENTICATED, and the login fails\<close>
  let ?h1 = "snd (stub_call grpc_rejects_everything ?G ''ServerService.List'' '''')"
  let ?h2 = "snd (WyronGrpcClient_login grpc_rejects_everything ?h1)"
  have u3: "stub_call grpc_rejects_everything ?G ''ServerService.List'' ''''
              = (Inl (RpcError UNAUTHENTICATED), ?h1)
            \<and> WyronGrpcClient_login grpc_rejects_everything ?h1
              = (Inl (RpcError UNAUTHENTICATED), ?h2)"
    by (simp add: grpc_eval grpc_rejects_everything_def)
  have b3: "WyronGrpcClient_call grpc_rejects_everything ?G ''ServerService.List'' ''''
              = (Inl (RpcError UNAUTHENTICATED), ?h2)
            \<and> grpc_attempts (grpc_made ?G ?h2) = 1 \<and> grpc_logins (grpc_made ?G ?h2) = 1"
    using P [of _ _ _ _ _ grpc_rejects_everything ?G "''ServerService.List''" "''''",
        THEN conjunct2, THEN conjunct2, THEN conjunct2, THEN conjunct2, THEN conjunct2,
        THEN conjunct2, THEN conjunct1, rule_format, OF u3] .
  \<comment> \<open>gRPC: UNAUTHENTICATED, the login succeeds, the second attempt succeeds\<close>
  let ?k1 = "snd (stub_call grpc_token_expired ?G ''ServerService.List'' '''')"
  let ?k2 = "snd (WyronGrpcClient_login grpc_token_expired ?k1)"
  let ?k3 = "snd (stub_call grpc_token_expired ?k2 ''ServerService.List'' '''')"
  have u4: "stub_call grpc_token_expired ?G ''ServerService.List'' ''''
              = (Inl (RpcError UNAUTHENTICATED), ?k1)
            \<and> WyronGrpcClient_login grpc_token_expired ?k1 = (Inr (), ?k2)
            \<and> stub_call grpc_token_expired ?k2 ''ServerService.List'' '''' = (Inr ''ok'', ?k3)"
    by (simp add: grpc_eval grpc_token_expired_def)
  have b4: "WyronGrpcClient_call grpc_token_expired ?G ''ServerService.List'' '''' = (Inr ''ok'', ?k3)
            \<and> grpc_attempts (grpc_made ?G ?k3) = 2 \<and> grpc_logins (grpc_made ?G ?k3) = 1"
    using P [of _ _ _ _ _ grpc_token_expired ?G "''ServerService.List''" "''''",
        THEN conjunct2, THEN conjunct2, THEN conjunct2, THEN conjunct2, THEN conjunct2,
        THEN conjunct2, THEN conjunct2, rule_format, OF u4] .
  \<comment> \<open>gRPC: UNAUTHENTICATED, the login succeeds, the second attempt fails the same way\<close>
  let ?m1 = "snd (stub_call grpc_refuses_tokens ?G ''ServerService.List'' '''')"
  let ?m2 = "snd (WyronGrpcClient_login grpc_refuses_tokens ?m1)"
  let ?m3 = "snd (stub_call grpc_refuses_tokens ?m2 ''ServerService.List'' '''')"
  have u5: "stub_call grpc_refuses_tokens ?G ''ServerService.List'' ''''
              = (Inl (RpcError UNAUTHENTICATED), ?m1)
            \<and> WyronGrpcClient_login grpc_refuses_tokens ?m1 = (Inr (), ?m2)
            \<and> stub_call grpc_refuses_tokens ?m2 ''ServerService.List'' ''''
              = (Inl (RpcError UNAUTHENTICATED), ?m3)"
    by (simp add: grpc_eval grpc_refuses_tokens_def)
  have b5: "WyronGrpcClient_call grpc_refuses_tokens ?G ''ServerService.List'' ''''
              = (Inl (RpcError UNAUTHENTICATED), ?m3)
            \<and> grpc_attempts (grpc_made ?G ?m3) = 2 \<and> grpc_logins (grpc_made ?G ?m3) = 1"
    using P [of _ _ _ _ _ grpc_refuses_tokens ?G "''ServerService.List''" "''''",
        THEN conjunct2, THEN conjunct2, THEN conjunct2, THEN conjunct2, THEN conjunct2,
        THEN conjunct2, THEN conjunct2, rule_format, OF u5] .
  have w1: "fst (WyronClient_request times_out ?C ''GET'' ''/servers'' []) = Inl (TransportError ''timeout'')"
    unfolding a1 [THEN conjunct1] fst_conv by (rule refl)
  have w2: "made ?C (snd (WyronClient_request times_out ?C ''GET'' ''/servers'' [])) = [?c1]"
    unfolding a1 [THEN conjunct1] snd_conv
    by (rule a1 [THEN conjunct2])
  have w3: "fst (WyronClient_request server_error ?C ''GET'' ''/servers'' []) = Inl (HTTPStatusError 503)"
    unfolding a2 [THEN conjunct1] fst_conv by (rule f2)
  have w4: "made ?C (snd (WyronClient_request server_error ?C ''GET'' ''/servers'' [])) = [?c1]"
    unfolding a2 [THEN conjunct1] snd_conv
    by (rule a2 [THEN conjunct2])
  have w5: "fst (WyronClient_request rejects_everything ?C ''GET'' ''/servers'' []) = Inl (HTTPStatusError 401)"
    unfolding a3 [THEN conjunct1] fst_conv by (rule refl)
  have w6: "attempts (made ?C (snd (WyronClient_request rejects_everything ?C ''GET'' ''/servers'' []))) = 1"
    unfolding a3 [THEN conjunct1] snd_conv
    by (rule a3 [THEN conjunct2, THEN conjunct2, THEN conjunct1])
  have w7: "fst (WyronClient_request token_expired ?C ''GET'' ''/servers'' []) = Inr (JObject [(''data'', JList [])])"
    unfolding a4 [THEN conjunct1] fst_conv by (rule f4)
  have w8: "attempts (made ?C (snd (WyronClient_request token_expired ?C ''GET'' ''/servers'' []))) = 2"
    unfolding a4 [THEN conjunct1] snd_conv
    by (rule a4 [THEN conjunct2, THEN conjunct2, THEN conjunct1])
  have w9: "logins (made ?C (snd (WyronClient_request token_expired ?C ''GET'' ''/servers'' []))) = 1"
    unfolding a4 [THEN conjunct1] snd_conv
    by (rule a4 [THEN conjunct2, THEN conjunct2, THEN conjunct2, THEN conjunct1])
  have w10: "attempts (made ?C (snd (WyronClient_request refuses_tokens ?C ''GET'' ''/servers'' []))) = 2"
    unfolding a5 [THEN conjunct1] snd_conv
    by (rule a5 [THEN conjunct2, THEN conjunct2, THEN conjunct1])
  have w11: "logins (made ?C (snd (WyronClient_request refuses_tokens ?C ''GET'' ''/servers'' []))) = 1"
    unfolding a5 [THEN conjunct1] snd_conv
    by (rule a5 [THEN conjunct2, THEN conjunct2, THEN conjunct2, THEN conjunct1])
  have x1: "fst (WyronGrpcClient_call grpc_token_expired ?G1 ''ServerService.List'' '''') = Inr ''ok''"
    unfolding b1 [THEN conjunct1] fst_conv by (rule refl)
  have x2: "fst (WyronGrpcClient_call grpc_times_out ?G ''ServerService.List'' '''') = Inl (RpcError DEADLINE_EXCEEDED)"
    unfolding b2 [THEN conjunct1] fst_conv by (rule refl)
  have x3: "grpc_attempts (grpc_made ?G (snd (WyronGrpcClient_call grpc_times_out ?G ''ServerService.List'' ''''))) = 1"
    unfolding b2 [THEN conjunct1] snd_conv
    by (rule b2 [THEN conjunct2, THEN conjunct1])
  have x4: "fst (WyronGrpcClient_call grpc_rejects_everything ?G ''ServerService.List'' '''') = Inl (RpcError UNAUTHENTICATED)"
    unfolding b3 [THEN conjunct1] fst_conv by (rule refl)
  have x5: "grpc_attempts (grpc_made ?G (snd (WyronGrpcClient_call grpc_rejects_everything ?G ''ServerService.List'' ''''))) = 1"
    unfolding b3 [THEN conjunct1] snd_conv
    by (rule b3 [THEN conjunct2, THEN conjunct1])
  have x6: "fst (WyronGrpcClient_call grpc_token_expired ?G ''ServerService.List'' '''') = Inr ''ok''"
    unfolding b4 [THEN conjunct1] fst_conv by (rule refl)
  have x7: "grpc_attempts (grpc_made ?G (snd (WyronGrpcClient_call grpc_token_expired ?G ''ServerService.List'' ''''))) = 2"
    unfolding b4 [THEN conjunct1] snd_conv
    by (rule b4 [THEN conjunct2, THEN conjunct1])
  have x8: "fst (WyronGrpcClient_call grpc_refuses_tokens ?G ''ServerService.List'' '''') = Inl (RpcError UNAUTHENTICATED)"
    unfolding b5 [THEN conjunct1] fst_conv by (rule refl)
  have x9: "grpc_logins (grpc_made ?G (snd (WyronGrpcClient_call grpc_refuses_tokens ?G ''ServerService.List'' ''''))) = 1"
    unfolding b5 [THEN conjunct1] snd_conv
    by (rule b5 [THEN conjunct2, THEN conjunct2])
  show ?thesis
    by (intro conjI) (fact w1 w2 w3 w4 w5 w6 w7 w8 w9 f5 w10 w11 x1 x2 x3 x4 x5 x6 x7 x8 x9)+
qed

text \<open>
  A login that answers a token which is not a string still succeeds (the token is
  stored as it is), so the call is made again.
\<close>

lemma request_retried_with_numeric_token:
  "fst (WyronClient_request numeric_token example_client ''GET'' ''/servers'' [])
     = Inl (HTTPStatusError 401)
   \<and> WyronClient.token (snd (WyronClient_request numeric_token example_client ''GET'' ''/servers'' []))
     = JInt 7
   \<and> attempts (session (snd
        (WyronClient_request numeric_token example_client ''GET'' ''/servers'' []))) = 2
   \<and> logins (session (snd
        (WyronClient_request numeric_token example_client ''GET'' ''/servers'' []))) = 1"
  by (simp add: WyronClient_request_def rest_eval numeric_token_def attempts_def logins_def)

section \<open>Login\<close>

lemma WyronClient_login_stores_token:
  assumes "net (session self) (login_call self) = Inr r"
    and "is_success (status_code r)"
    and "body r = Some (JObject kw)"
    and "map_of kw ''token'' = Some tok"
    and "\<not> json_falsy tok"
  shows "WyronClient_login net self
           = (Inr (), self\<lparr>session := session self @ [login_call self],
                           WyronClient.token := tok\<rparr>)"
  using assms
  by (simp add: WyronClient_login_def send_def raise_for_status_def response_json_def)

lemma WyronClient_login_token_missing:
  assumes "net (session self) (login_call self) = Inr r"
    and "is_success (status_code r)"
    and "body r = Some (JObject kw)"
    and "map_of kw ''token'' = None \<or> (\<exists>tok. map_of kw ''token'' = Some tok \<and> json_falsy tok)"
  shows "WyronClient_login net self
           = (Inl (Exception ''Login failed: token missing in response''),
              self\<lparr>session := session self @ [login_call self]\<rparr>)"
  using assms
  by (auto simp: WyronClient_login_def send_def raise_for_status_def response_json_def)

lemma WyronGrpcClient_login_stores_any_token:
  assumes "Login ch (calls self) (WyronGrpcClient.username self) (WyronGrpcClient.password self)
             (WyronGrpcClient.timeout self) = Inr tok"
  shows "fst (WyronGrpcClient_login ch self) = Inr ()"
    and "WyronGrpcClient.token (snd (WyronGrpcClient_login ch self)) = Some tok"
  using assms by (simp_all add: WyronGrpcClient_login_def Let_def)

text \<open>
  C4 holds for the REST client (the two lemmas above) and not for the gRPC client, whose
  \<open>login\<close> has no check of the token. On a \<open>LoginResponse\<close> whose \<open>token\<close> is not set, and
  so reads as the empty string, \<open>WyronGrpcClient.login\<close> returns normally and stores the
  empty string as the client's token. On the same answer (a 200 response whose \<open>token\<close> is
  the empty string) \<open>WyronClient.login\<close> raises
  \<open>Exception("Login failed: token missing in response")\<close> and leaves the stored token as it
  was.
\<close>

theorem grpc_login_stores_empty_token:
  "fst (WyronGrpcClient_login grpc_login_without_token example_grpc_client) = Inr ()
   \<and> WyronGrpcClient.token (snd (WyronGrpcClient_login grpc_login_without_token example_grpc_client))
     = Some ''''
   \<and> WyronGrpcClient_metadata (snd (WyronGrpcClient_login grpc_login_without_token example_grpc_client))
     = []
   \<and> fst (WyronClient_login (login_without_token (JObject [(''token'', JStr '''')])) example_client)
     = Inl (Exception ''Login failed: token missing in response'')
   \<and> WyronClient.token
       (snd (WyronClient_login (login_without_token (JObject [(''token'', JStr '''')])) example_client))
     = JStr ''T0''"
  by (simp add: WyronGrpcClient_login_def Let_def grpc_login_without_token_def
      example_grpc_client_def WyronGrpcClient_metadata_def
      WyronClient_login_def send_def login_without_token_def raise_for_status_def
      is_success_def response_json_def example_client_def)

section \<open>Listing users: what the request carries\<close>

text \<open>
  C8, as stated, fails: \<open>status\<close> and \<open>search\<close> are tested for truth, not for \<open>None\<close>,
  so a caller who supplies the empty string gets the filter left out, on either client.
\<close>

theorem list_users_empty_status_omitted:
  "map_of (WyronClient_list_users_params None (Some '''') (Some '''') 50 0 ''created_at'' ''desc'')
       ''status'' = None
   \<and> map_of (WyronClient_list_users_params None (Some '''') (Some '''') 50 0 ''created_at'' ''desc'')
       ''search'' = None
   \<and> ListUsersRequest.status
       (WyronGrpcClient_list_users_request None (Some '''') (Some '''') 50 0 ''created_at'' ''desc'')
     = None
   \<and> ListUsersRequest.search
       (WyronGrpcClient_list_users_request None (Some '''') (Some '''') 50 0 ''created_at'' ''desc'')
     = None"
  by (simp add: WyronClient_list_users_params_def WyronGrpcClient_list_users_request_def)

lemma list_users_first_call:
  "\<exists>rest. made self (snd (WyronClient_request net self m p kw)) = request_call self m p kw # rest"
  by (auto simp: WyronClient_request_def made_def send_def WyronClient_login_def
           split: sum.splits if_splits json.splits)

text \<open>
  C8, amended. On either client the request of \<open>list_users\<close> always carries \<open>limit\<close>,
  \<open>skip\<close>, \<open>sort\<close> and \<open>order\<close> with the caller's values. \<open>social_id\<close> is carried,
  unmodified, exactly when it is not \<open>None\<close> (0 is carried). \<open>status\<close> and \<open>search\<close> are
  carried, unmodified, exactly when they are non-empty strings: \<open>None\<close> and the empty
  string are both left out. A filter that is left out is absent from the request (no
  key in the REST query parameters, no assignment to the gRPC message), never \<open>null\<close>,
  empty or a sentinel; the REST parameters hold no other key, and they are the
  \<open>params\<close> of the GET request to \<open>/users\<close> that the client sends first.
\<close>

theorem list_users_request_contents:
  "map_of (WyronClient_list_users_params sid st se lim sk so ord) ''limit'' = Some (JInt lim)
   \<and> map_of (WyronClient_list_users_params sid st se lim sk so ord) ''skip'' = Some (JInt sk)
   \<and> map_of (WyronClient_list_users_params sid st se lim sk so ord) ''sort'' = Some (JStr so)
   \<and> map_of (WyronClient_list_users_params sid st se lim sk so ord) ''order'' = Some (JStr ord)
   \<and> map_of (WyronClient_list_users_params sid st se lim sk so ord) ''social_id''
       = map_option JInt sid
   \<and> map_of (WyronClient_list_users_params sid st se lim sk so ord) ''status''
       = (case st of None \<Rightarrow> None | Some s \<Rightarrow> if s = [] then None else Some (JStr s))
   \<and> map_of (WyronClient_list_users_params sid st se lim sk so ord) ''search''
       = (case se of None \<Rightarrow> None | Some s \<Rightarrow> if s = [] then None else Some (JStr s))
   \<and> set (map fst (WyronClient_list_users_params sid st se lim sk so ord))
       \<subseteq> {''limit'', ''skip'', ''sort'', ''order'', ''social_id'', ''status'', ''search''}
   \<and> distinct (map fst (WyronClient_list_users_params sid st se lim sk so ord))
   \<and> JNull \<notin> snd ` set (WyronClient_list_users_params sid st se lim sk so ord)
   \<and> JStr '''' \<notin> snd ` set (WyronClient_list_users_params sid st se lim sk so ord
                               ) - {JStr so, JStr ord}
   \<and> (\<exists>rest. made self (snd (WyronClient_list_users_data net self sid st se lim sk so ord))
        = SessionRequest ''GET'' (base_url self @ ''/users'') (WyronClient_headers self)
            (WyronClient.timeout self)
            [(''params'', JObject (WyronClient_list_users_params sid st se lim sk so ord))]
          # rest)
   \<and> ListUsersRequest.limit (WyronGrpcClient_list_users_request sid st se lim sk so ord) = lim
   \<and> ListUsersRequest.skip (WyronGrpcClient_list_users_request sid st se lim sk so ord) = sk
   \<and> ListUsersRequest.sort (WyronGrpcClient_list_users_request sid st se lim sk so ord) = so
   \<and> ListUsersRequest.order (WyronGrpcClient_list_users_request sid st se lim sk so ord) = ord
   \<and> ListUsersRequest.social_id (WyronGrpcClient_list_users_request sid st se lim sk so ord) = sid
   \<and> ListUsersRequest.status (WyronGrpcClient_list_users_request sid st se lim sk so ord)
       = (case st of None \<Rightarrow> None | Some s \<Rightarrow> if s = [] then None else Some s)
   \<and> ListUsersRequest.search (WyronGrpcClient_list_users_request sid st se lim sk so ord)
       = (case se of None \<Rightarrow> None | Some s \<Rightarrow> if s = [] then None else Some s)"
proof (intro conjI)
  let ?p = "WyronClient_list_users_params sid st se lim sk so ord"
  let ?r = "WyronGrpcClient_list_users_request sid st se lim sk so ord"
  show "map_of ?p ''limit'' = Some (JInt lim)"
    by (simp add: WyronClient_list_users_params_def)
  show "map_of ?p ''skip'' = Some (JInt sk)"
    by (simp add: WyronClient_list_users_params_def)
  show "map_of ?p ''sort'' = Some (JStr so)"
    by (simp add: WyronClient_list_users_params_def)
  show "map_of ?p ''order'' = Some (JStr ord)"
    by (simp add: WyronClient_list_users_params_def)
  show "map_of ?p ''social_id'' = map_option JInt sid"
    by (simp add: WyronClient_list_users_params_def split: option.splits)
  show "map_of ?p ''status''
       = (case st of None \<Rightarrow> None | Some s \<Rightarrow> if s = [] then None else Some (JStr s))"
    by (simp add: WyronClient_list_users_params_def split: option.splits)
  show "map_of ?p ''search''
       = (case se of None \<Rightarrow> None | Some s \<Rightarrow> if s = [] then None else Some (JStr s))"
    by (simp add: WyronClient_list_users_params_def split: option.splits)
  show "set (map fst ?p)
       \<subseteq> {''limit'', ''skip'', ''sort'', ''order'', ''social_id'', ''status'', ''search''}"
    by (auto simp: WyronClient_list_users_params_def split: option.splits if_splits)
  show "distinct (map fst ?p)"
    by (cases sid; cases st; cases se) (simp_all add: WyronClient_list_users_params_def)
  show "JNull \<notin> snd ` set ?p"
    by (auto simp: WyronClient_list_users_params_def split: option.splits if_splits)
  show "JStr '''' \<notin> snd ` set ?p - {JStr so, JStr ord}"
    by (auto simp: WyronClient_list_users_params_def split: option.splits if_splits)
  show "\<exists>rest. made self (snd (WyronClient_list_users_data net self sid st se lim sk so ord))
        = SessionRequest ''GET'' (base_url self @ ''/users'') (WyronClient_headers self)
            (WyronClient.timeout self) [(''params'', JObject ?p)] # rest"
    using list_users_first_call [of self net "''GET''" "''/users''" "[(''params'', JObject ?p)]"]
    by (simp add: WyronClient_list_users_data_def request_call_def)
  show "ListUsersRequest.limit ?r = lim"
    by (simp add: WyronGrpcClient_list_users_request_def Let_def split: option.splits)
  show "ListUsersRequest.skip ?r = sk"
    by (simp add: WyronGrpcClient_list_users_request_def Let_def split: option.splits)
  show "ListUsersRequest.sort ?r = so"
    by (simp add: WyronGrpcClient_list_users_request_def Let_def split: option.splits)
  show "ListUsersRequest.order ?r = ord"
    by (simp add: WyronGrpcClient_list_users_request_def Let_def split: option.splits)
  show "ListUsersRequest.social_id ?r = sid"
    by (simp add: WyronGrpcClient_list_users_request_def Let_def split: option.splits)
  show "ListUsersRequest.status ?r
       = (case st of None \<Rightarrow> None | Some s \<Rightarrow> if s = [] then None else Some s)"
    by (simp add: WyronGrpcClient_list_users_request_def Let_def split: option.splits)
  show "ListUsersRequest.search ?r
       = (case se of None \<Rightarrow> None | Some s \<Rightarrow> if s = [] then None else Some s)"
    by (simp add: WyronGrpcClient_list_users_request_def Let_def split: option.splits)
qed

theorem list_users_request_contents_witness:
  "WyronClient_list_users_params None None None 50 0 ''created_at'' ''desc''
     = [(''limit'', JInt 50), (''skip'', JInt 0), (''sort'', JStr ''created_at''),
        (''order'', JStr ''desc'')]
   \<and> map_of (WyronClient_list_users_params (Some 0) (Some ''active'') None 50 0 ''created_at'' ''desc'')
        ''social_id'' = Some (JInt 0)
   \<and> map_of (WyronClient_list_users_params (Some 0) (Some ''active'') None 50 0 ''created_at'' ''desc'')
        ''status'' = Some (JStr ''active'')
   \<and> map_of (WyronClient_list_users_params (Some 0) (Some ''active'') None 50 0 ''created_at'' ''desc'')
        ''search'' = None
   \<and> ListUsersRequest.social_id
        (WyronGrpcClient_list_users_request (Some 0) (Some ''active'') None 50 0 ''created_at'' ''desc'')
      = Some 0
   \<and> ListUsersRequest.status
        (WyronGrpcClient_list_users_request (Some 0) (Some ''active'') None 50 0 ''created_at'' ''desc'')
      = Some ''active''
   \<and> ListUsersRequest.search
        (WyronGrpcClient_list_users_request (Some 0) (Some ''active'') None 50 0 ''created_at'' ''desc'')
      = None"
proof -
  note T = list_users_request_contents
    [of "Some 0" "Some ''active''" None 50 0 "''created_at''" "''desc''"]
  have a: "WyronClient_list_users_params None None None 50 0 ''created_at'' ''desc''
     = [(''limit'', JInt 50), (''skip'', JInt 0), (''sort'', JStr ''created_at''),
        (''order'', JStr ''desc'')]"
    by (simp add: WyronClient_list_users_params_def)
  show ?thesis
    using a T by simp
qed

end
